theory Spec2Isabelle
  imports Complex_Main
begin

section \<open>Mini LIMS (app.py): a shallow embedding\<close>

text \<open>
  The program is one Streamlit script over an SQLite file. Every interaction re-runs the
  script: \<open>init_db()\<close> first, then the handler of the form or button that was used.
  The model keeps the database as a record of tables (each a list of rows in insertion
  order), passes it through every function that the source lets touch it, and returns
  what the page shows (\<open>st.error\<close>, \<open>st.success\<close>, ...) or the exception that escapes.

  What the host supplies is a parameter: the clock (\<open>datetime.now()\<close>, \<open>now_ts()\<close>,
  SQLite's \<open>DATE('now')\<close>), the values of the form widgets, and Python's \<open>float()\<close>
  on the text of the uncertainty field. One clock reading serves a whole handler run.
\<close>

subsection \<open>Python values: exceptions, \<open>str(int)\<close>, \<open>int(str)\<close>, \<open>f"{n:04d}"\<close>\<close>

datatype py_error = IndexError | ValueError | IntegrityError

text \<open>A calendar date (\<open>datetime.date\<close>, or the ISO text SQLite compares) as its day number.\<close>

type_synonym date = int

text \<open>
  A Python float: a finite double (carried as the real number it denotes; the program
  never computes with it), an infinity, or NaN.
\<close>

datatype pyfloat = PyFloat real | PyInf | PyNegInf | PyNaN

text \<open>
  What a nullable REAL column holds once a parameter is bound: \<open>None\<close> is stored as
  NULL, and so is NaN (SQLite has no NaN); every other float is stored as it is.
\<close>

definition sql_bind_real :: "pyfloat option \<Rightarrow> pyfloat option" where
  "sql_bind_real p = (case p of None \<Rightarrow> None | Some x \<Rightarrow> if x = PyNaN then None else Some x)"

definition digit_char :: "nat \<Rightarrow> char" where
  "digit_char d = ''0123456789'' ! d"

fun digits :: "nat \<Rightarrow> string" where
  "digits n = (if n < 10 then [digit_char n] else digits (n div 10) @ [digit_char (n mod 10)])"

declare digits.simps [simp del]

text \<open>\<open>str(i)\<close> for a Python int.\<close>

definition py_str :: "int \<Rightarrow> string" where
  "py_str i = (if i < 0 then CHR ''-'' # digits (nat (- i)) else digits (nat i))"

text \<open>
  \<open>f"{i:04d}"\<close>: at least four characters, padded with zeros after the sign; a number
  that needs more than four is printed in full.
\<close>

definition fmt_04d :: "int \<Rightarrow> string" where
  "fmt_04d i =
     (if i < 0
      then (let ds = digits (nat (- i)) in CHR ''-'' # replicate (3 - length ds) CHR ''0'' @ ds)
      else (let ds = digits (nat i) in replicate (4 - length ds) CHR ''0'' @ ds))"

definition digit_val :: "char \<Rightarrow> nat option" where
  "digit_val c = map_of (zip ''0123456789'' [0, 1, 2, 3, 4, 5, 6, 7, 8, 9]) c"

fun parse_digits :: "nat \<Rightarrow> string \<Rightarrow> nat option" where
  "parse_digits acc [] = Some acc"
| "parse_digits acc (c # cs) =
     (case digit_val c of None \<Rightarrow> None | Some d \<Rightarrow> parse_digits (10 * acc + d) cs)"

text \<open>
  \<open>int(s)\<close> on an optional sign and ASCII decimal digits, \<open>ValueError\<close> otherwise. The
  only strings the program passes to \<open>int\<close> are values of the \<open>meta\<close> table, which it
  writes itself with \<open>str\<close>; surrounding blanks and digit-group underscores, which
  Python also accepts, do not occur there and are not modelled.
\<close>

definition py_int :: "string \<Rightarrow> py_error + int" where
  "py_int s =
     (case s of
        [] \<Rightarrow> Inl ValueError
      | c # cs \<Rightarrow>
          if c = CHR ''-'' \<or> c = CHR ''+''
          then (case (if cs = [] then None else parse_digits 0 cs) of
                  None \<Rightarrow> Inl ValueError
                | Some n \<Rightarrow> Inr (if c = CHR ''-'' then - int n else int n))
          else (case parse_digits 0 s of None \<Rightarrow> Inl ValueError | Some n \<Rightarrow> Inr (int n)))"

subsection \<open>The clock\<close>

record clock =
  now_year :: int        \<comment> \<open>\<open>datetime.now().year\<close>\<close>
  now_ts :: string       \<comment> \<open>\<open>now_ts()\<close>: local time as text\<close>
  sql_today :: date      \<comment> \<open>SQLite's \<open>DATE('now')\<close>\<close>

subsection \<open>The tables of SCHEMA\<close>

record user_row =
  u_id :: int
  u_username :: string
  u_role :: string
  u_active :: int
  u_created_at :: string

record sample_row =
  s_id :: string
  s_client :: string
  s_project :: string
  s_matrix :: string
  s_description :: string
  s_received_at :: date
  s_due_at :: "date option"
  s_status :: string
  s_priority :: string
  s_location :: string
  s_created_by :: string
  s_created_at :: string
  s_updated_at :: string

record test_row =
  t_id :: int
  t_sample_id :: string
  t_test_name :: string
  t_method :: string
  t_unit :: string
  t_status :: string
  t_assigned_to :: "string option"
  t_due_at :: "date option"

record result_row =
  r_id :: int
  r_test_id :: int
  r_analyte :: string
  r_value :: "pyfloat option"
  r_unit :: string
  r_uncertainty :: "pyfloat option"
  r_notes :: string
  r_measured_at :: string

record attachment_row =
  a_id :: int
  a_sample_id :: string
  a_label :: string
  a_url :: string
  a_added_by :: string
  a_added_at :: string

record coc_row =
  c_id :: int
  c_sample_id :: string
  c_event :: string
  c_by_user :: string
  c_at_time :: string
  c_notes :: string

text \<open>
  The \<open>details\<close> column holds \<open>json.dumps\<close> of a dict of strings; the model keeps the
  dict itself, as the list of its items.
\<close>

record audit_row =
  au_id :: int
  au_entity :: string
  au_entity_id :: string
  au_action :: string
  au_by_user :: string
  au_at_time :: string
  au_details :: "(string \<times> string) list"

record qc_row =
  q_id :: int
  q_type :: string
  q_instrument :: string
  q_description :: string
  q_status :: string
  q_at_time :: string
  q_by_user :: string

record db =
  meta :: "(string \<times> string) list"
  users :: "user_row list"
  samples :: "sample_row list"
  tests :: "test_row list"
  results :: "result_row list"
  attachments :: "attachment_row list"
  coc :: "coc_row list"
  audit_tbl :: "audit_row list"
  qc_events :: "qc_row list"

text \<open>The file \<open>lims.db\<close> before the first run: no row anywhere.\<close>

definition empty_db :: db where
  "empty_db = \<lparr>meta = [], users = [], samples = [], tests = [], results = [],
     attachments = [], coc = [], audit_tbl = [], qc_events = []\<rparr>"

text \<open>
  \<open>INTEGER PRIMARY KEY AUTOINCREMENT\<close>: the new row gets the largest id ever used plus
  one. No statement of the program deletes a row, so that is the largest id present.
\<close>

definition next_rowid :: "int list \<Rightarrow> int" where
  "next_rowid ids = fold max ids 0 + 1"

text \<open>\<open>SELECT value FROM meta WHERE key=k\<close> and \<open>UPDATE meta SET value=v WHERE key=k\<close>.\<close>

definition meta_select :: "string \<Rightarrow> db \<Rightarrow> string list" where
  "meta_select k d = map snd (filter (\<lambda>kv. fst kv = k) (meta d))"

definition update_meta :: "string \<Rightarrow> string \<Rightarrow> db \<Rightarrow> db" where
  "update_meta k v d = d\<lparr>meta := map (\<lambda>kv. if fst kv = k then (k, v) else kv) (meta d)\<rparr>"

subsection \<open>\<open>init_db\<close>\<close>

text \<open>
  The three guarded inserts of \<open>init_db\<close>. Each guard is the query that would find the
  row, so the insert never meets the key it adds (\<open>meta.key\<close> is the primary key and
  \<open>users.username\<close> is unique) and cannot raise.
\<close>

definition init_db :: "clock \<Rightarrow> db \<Rightarrow> db" where
  "init_db clk d =
     (let d1 = (if meta_select ''seq_ano'' d = []
                then d\<lparr>meta := meta d @ [(''seq_ano'', py_str (now_year clk))]\<rparr> else d);
          d2 = (if meta_select ''seq_num'' d1 = []
                then d1\<lparr>meta := meta d1 @ [(''seq_num'', ''0'')]\<rparr> else d1);
          d3 = (if filter (\<lambda>u. u_username u = ''admin'') (users d2) = []
                then d2\<lparr>users := users d2 @
                       [\<lparr>u_id = next_rowid (map u_id (users d2)), u_username = ''admin'',
                         u_role = ''admin'', u_active = 1, u_created_at = now_ts clk\<rparr>]\<rparr>
                else d2)
      in d3)"

subsection \<open>\<open>audit\<close>\<close>

text \<open>\<open>details or {}\<close>: a missing or empty dict is stored as the empty one.\<close>

definition audit ::
  "clock \<Rightarrow> string \<Rightarrow> string \<Rightarrow> string \<Rightarrow> string \<Rightarrow> (string \<times> string) list option \<Rightarrow> db \<Rightarrow> db"
where
  "audit clk entity entity_id action by_user details d =
     d\<lparr>audit_tbl := audit_tbl d @
         [\<lparr>au_id = next_rowid (map au_id (audit_tbl d)), au_entity = entity,
           au_entity_id = entity_id, au_action = action, au_by_user = by_user,
           au_at_time = now_ts clk,
           au_details = (case details of None \<Rightarrow> [] | Some kvs \<Rightarrow> kvs)\<rparr>]\<rparr>"

subsection \<open>\<open>next_sample_id\<close>\<close>

text \<open>
  Both reads come first; \<open>[0]\<close> on an empty answer raises \<open>IndexError\<close> and \<open>int\<close> may
  raise \<open>ValueError\<close>, in either case before anything is written.
\<close>

definition next_sample_id :: "clock \<Rightarrow> db \<Rightarrow> py_error + (string \<times> db)" where
  "next_sample_id clk d =
     (let year = py_str (now_year clk);
          seq_year = meta_select ''seq_ano'' d
      in case meta_select ''seq_num'' d of
           [] \<Rightarrow> Inl IndexError
         | v # _ \<Rightarrow>
             (case py_int v of
                Inl e \<Rightarrow> Inl e
              | Inr stored \<Rightarrow>
                  let reset = (case seq_year of [] \<Rightarrow> True | y # _ \<Rightarrow> y \<noteq> year);
                      d1 = (if reset then update_meta ''seq_ano'' year d else d);
                      seq_num = (if reset then 0 else stored) + 1;
                      d2 = update_meta ''seq_num'' (py_str seq_num) d1
                  in Inr (''S-'' @ year @ ''-'' @ fmt_04d seq_num, d2)))"

subsection \<open>What a handler leaves on the page\<close>

datatype outcome =
    Raised py_error       \<comment> \<open>an exception no handler catches\<close>
  | St_error string
  | St_warning string
  | St_info string
  | St_success string
  | Nothing_shown         \<comment> \<open>the guard of the handler was false: no message, no write\<close>

subsection \<open>Registro de muestras: form \<open>frm_sample\<close>\<close>

record sample_input =
  sf_client :: string
  sf_project :: string
  sf_matrix :: string
  sf_description :: string
  sf_received_at :: date
  sf_due_at :: "date option"
  sf_priority :: string
  sf_status :: string
  sf_location :: string
  sf_created_by :: string

text \<open>\<open>samples.id\<close> is the primary key: a second row with the same id is refused.\<close>

definition insert_sample :: "sample_row \<Rightarrow> db \<Rightarrow> py_error + db" where
  "insert_sample r d =
     (if s_id r \<in> set (map s_id (samples d)) then Inl IntegrityError
      else Inr (d\<lparr>samples := samples d @ [r]\<rparr>))"

definition insert_coc :: "clock \<Rightarrow> string \<Rightarrow> string \<Rightarrow> string \<Rightarrow> string \<Rightarrow> db \<Rightarrow> db" where
  "insert_coc clk sample_id event by_user notes d =
     d\<lparr>coc := coc d @
         [\<lparr>c_id = next_rowid (map c_id (coc d)), c_sample_id = sample_id, c_event = event,
           c_by_user = by_user, c_at_time = now_ts clk, c_notes = notes\<rparr>]\<rparr>"

text \<open>
  The body of \<open>if submitted:\<close>. \<open>user\<close> is \<open>st.session_state.user\<close>, here and in every
  handler below.
\<close>

definition frm_sample :: "clock \<Rightarrow> string \<Rightarrow> sample_input \<Rightarrow> db \<Rightarrow> db \<times> outcome" where
  "frm_sample clk user f d =
     (if sf_client f = [] then (d, St_error ''Cliente es obligatorio.'')
      else
        (case next_sample_id clk d of
           Inl e \<Rightarrow> (d, Raised e)
         | Inr (sid, d1) \<Rightarrow>
             (case insert_sample
                     \<lparr>s_id = sid, s_client = sf_client f, s_project = sf_project f,
                      s_matrix = sf_matrix f, s_description = sf_description f,
                      s_received_at = sf_received_at f, s_due_at = sf_due_at f,
                      s_status = sf_status f, s_priority = sf_priority f,
                      s_location = sf_location f, s_created_by = sf_created_by f,
                      s_created_at = now_ts clk, s_updated_at = now_ts clk\<rparr> d1 of
                Inl e \<Rightarrow> (d1, Raised e)
              | Inr d2 \<Rightarrow>
                  let d3 = audit clk ''sample'' sid ''create'' user
                             (Some [(''client'', sf_client f), (''priority'', sf_priority f)]) d2;
                      d4 = insert_coc clk sid ''Registro'' user ''Muestra creada'' d3
                  in (d4, St_success (''Muestra creada: '' @ sid)))))"

subsection \<open>Muestras: forms \<open>edit_sample\<close> and \<open>add_test\<close>\<close>

definition sample_statuses :: "string list" where
  "sample_statuses =
     [''registrado'', ''en_proceso'', ''en_espera'', ''reportado'', ''cerrado'', ''cancelado'']"

definition priorities :: "string list" where
  "priorities = [''baja'', ''normal'', ''alta'', ''urgente'']"

definition test_statuses :: "string list" where
  "test_statuses = [''pendiente'', ''en_proceso'', ''en_revision'', ''reportado'', ''cancelado'']"

record sample_edit_input =
  se_client :: string
  se_project :: string
  se_matrix :: string
  se_description :: string
  se_received_at :: date
  se_due_at :: "date option"
  se_status :: string
  se_priority :: string
  se_location :: string

text \<open>
  The form is drawn from the stored row first: \<open>list.index\<close> of its status and of its
  priority raises \<open>ValueError\<close> when the stored text is not an option of the select box.
\<close>

definition edit_sample ::
  "clock \<Rightarrow> string \<Rightarrow> string \<Rightarrow> sample_edit_input \<Rightarrow> db \<Rightarrow> db \<times> outcome"
where
  "edit_sample clk user sid f d =
     (if sid = [] then (d, Nothing_shown)
      else
        (case filter (\<lambda>s. s_id s = sid) (samples d) of
           [] \<Rightarrow> (d, St_warning ''No existe esa muestra.'')
         | rec # _ \<Rightarrow>
             if s_status rec \<notin> set sample_statuses \<or> s_priority rec \<notin> set priorities
             then (d, Raised ValueError)
             else
               let d1 = d\<lparr>samples :=
                          map (\<lambda>s. if s_id s = sid
                                    then s\<lparr>s_client := se_client f, s_project := se_project f,
                                           s_matrix := se_matrix f,
                                           s_description := se_description f,
                                           s_received_at := se_received_at f,
                                           s_due_at := se_due_at f, s_status := se_status f,
                                           s_priority := se_priority f,
                                           s_location := se_location f,
                                           s_updated_at := now_ts clk\<rparr>
                                    else s) (samples d)\<rparr>;
                   d2 = audit clk ''sample'' sid ''update'' user
                          (Some [(''status'', se_status f)]) d1
               in (d2, St_success ''Actualizado.'')))"

record test_input =
  tf_test_name :: string
  tf_method :: string
  tf_unit :: string
  tf_due_at :: "date option"

text \<open>
  \<open>if sid2:\<close> draws the form and \<open>if submitted and test_name:\<close> writes. SQLite checks a
  \<open>FOREIGN KEY\<close> clause only under \<open>PRAGMA foreign_keys = ON\<close>, which the program never
  issues, so any non-empty \<open>sid2\<close> is accepted.
\<close>

definition add_test :: "clock \<Rightarrow> string \<Rightarrow> string \<Rightarrow> test_input \<Rightarrow> db \<Rightarrow> db \<times> outcome" where
  "add_test clk user sid2 f d =
     (if sid2 = [] \<or> tf_test_name f = [] then (d, Nothing_shown)
      else
        let d1 = d\<lparr>tests := tests d @
                   [\<lparr>t_id = next_rowid (map t_id (tests d)), t_sample_id = sid2,
                     t_test_name = tf_test_name f, t_method = tf_method f,
                     t_unit = tf_unit f, t_status = ''pendiente'', t_assigned_to = None,
                     t_due_at = tf_due_at f\<rparr>]\<rparr>;
            d2 = audit clk ''test'' sid2 ''create'' user (Some [(''test'', tf_test_name f)]) d1
        in (d2, St_success ''Ensayo agregado.''))"

subsection \<open>Ensayos y resultados: forms \<open>edit_test\<close> and \<open>add_result\<close>, the results view\<close>

record test_edit_input =
  te_status :: string
  te_assigned_to :: string
  te_due_at :: "date option"

definition edit_test ::
  "clock \<Rightarrow> string \<Rightarrow> int \<Rightarrow> test_edit_input \<Rightarrow> db \<Rightarrow> db \<times> outcome"
where
  "edit_test clk user tid f d =
     (if tid = 0 then (d, Nothing_shown)
      else
        (case filter (\<lambda>t. t_id t = tid) (tests d) of
           [] \<Rightarrow> (d, St_info (''Ingrese un ID v'' @ [CHR 0xC3, CHR 0xA1] @ ''lido''))
         | row # _ \<Rightarrow>
             if t_status row \<notin> set test_statuses then (d, Raised ValueError)
             else
               let d1 = d\<lparr>tests :=
                          map (\<lambda>t. if t_id t = tid
                                    then t\<lparr>t_status := te_status f,
                                           t_assigned_to := Some (te_assigned_to f),
                                           t_due_at := te_due_at f\<rparr>
                                    else t) (tests d)\<rparr>;
                   d2 = audit clk ''test'' (py_str tid) ''update'' user
                          (Some [(''status'', te_status f)]) d1
               in (d2, St_success ''Ensayo actualizado.'')))"

record result_input =
  rf_tid_r :: int
  rf_analyte :: string
  rf_value :: pyfloat
  rf_unit :: string
  rf_unc :: string
  rf_notes :: string

text \<open>
  \<open>float(unc) if unc else None\<close>. \<open>py_float\<close> stands for Python's \<open>float\<close> on text
  (\<open>None\<close> where it raises \<open>ValueError\<close>; it reads \<open>nan\<close> as NaN and \<open>inf\<close> as infinity).
\<close>

definition unc_value :: "(string \<Rightarrow> pyfloat option) \<Rightarrow> string \<Rightarrow> py_error + pyfloat option" where
  "unc_value py_float unc =
     (if unc = [] then Inr None
      else (case py_float unc of None \<Rightarrow> Inl ValueError | Some x \<Rightarrow> Inr (Some x)))"

definition add_result ::
  "(string \<Rightarrow> pyfloat option) \<Rightarrow> clock \<Rightarrow> string \<Rightarrow> result_input \<Rightarrow> db \<Rightarrow> db \<times> outcome"
where
  "add_result py_float clk user f d =
     (if rf_analyte f = [] \<or> rf_tid_r f = 0 then (d, Nothing_shown)
      else
        (case unc_value py_float (rf_unc f) of
           Inl e \<Rightarrow> (d, Raised e)
         | Inr unc \<Rightarrow>
             let d1 = d\<lparr>results := results d @
                        [\<lparr>r_id = next_rowid (map r_id (results d)), r_test_id = rf_tid_r f,
                          r_analyte = rf_analyte f,
                          r_value = sql_bind_real (Some (rf_value f)), r_unit = rf_unit f,
                          r_uncertainty = sql_bind_real unc, r_notes = rf_notes f,
                          r_measured_at = now_ts clk\<rparr>]\<rparr>;
                 d2 = audit clk ''result'' (py_str (rf_tid_r f)) ''create'' user
                        (Some [(''analyte'', rf_analyte f)]) d1
             in (d2, St_success ''Resultado guardado.'')))"

text \<open>\<open>SELECT * FROM results WHERE test_id=?\<close>, run only \<open>if tid_view:\<close>.\<close>

definition results_view :: "int \<Rightarrow> db \<Rightarrow> result_row list option" where
  "results_view tid_view d =
     (if tid_view = 0 then None else Some (filter (\<lambda>r. r_test_id r = tid_view) (results d)))"

subsection \<open>Adjuntos: form \<open>add_link\<close>\<close>

record link_input =
  lf_label :: string
  lf_url :: string
  lf_notes :: string

definition add_link :: "clock \<Rightarrow> string \<Rightarrow> string \<Rightarrow> link_input \<Rightarrow> db \<Rightarrow> db \<times> outcome" where
  "add_link clk user sid f d =
     (if sid = [] \<or> lf_url f = [] then (d, Nothing_shown)
      else
        let d1 = d\<lparr>attachments := attachments d @
                   [\<lparr>a_id = next_rowid (map a_id (attachments d)), a_sample_id = sid,
                     a_label = lf_label f, a_url = lf_url f, a_added_by = user,
                     a_added_at = now_ts clk\<rparr>]\<rparr>;
            d2 = audit clk ''attachment'' sid ''create'' user (Some [(''url'', lf_url f)]) d1
        in (d2, St_success ''Adjunto registrado.''))"

subsection \<open>Control de calidad: form \<open>qc_form\<close> and the close button\<close>

record qc_input =
  qf_qtype :: string
  qf_instr :: string
  qf_desc :: string

definition qc_form :: "clock \<Rightarrow> string \<Rightarrow> qc_input \<Rightarrow> db \<Rightarrow> db \<times> outcome" where
  "qc_form clk user f d =
     (let d1 = d\<lparr>qc_events := qc_events d @
                 [\<lparr>q_id = next_rowid (map q_id (qc_events d)), q_type = qf_qtype f,
                   q_instrument = qf_instr f, q_description = qf_desc f,
                   q_status = ''abierto'', q_at_time = now_ts clk, q_by_user = user\<rparr>]\<rparr>;
          d2 = audit clk ''qc'' ''-'' ''create'' user (Some [(''type'', qf_qtype f)]) d1
      in (d2, St_success ''Evento QC registrado.''))"

text \<open>\<open>if qid:\<close> draws the button; pressing it runs the update and then \<open>audit\<close>.\<close>

definition qc_close :: "clock \<Rightarrow> string \<Rightarrow> int \<Rightarrow> db \<Rightarrow> db \<times> outcome" where
  "qc_close clk user qid d =
     (if qid = 0 then (d, Nothing_shown)
      else
        let d1 = d\<lparr>qc_events :=
                   map (\<lambda>q. if q_id q = qid then q\<lparr>q_status := ''cerrado''\<rparr> else q)
                     (qc_events d)\<rparr>;
            d2 = audit clk ''qc'' (py_str qid) ''close'' user (Some []) d1
        in (d2, St_success ''Evento QC cerrado.''))"

subsection \<open>Administracion: form \<open>add_user\<close>\<close>

record user_input =
  uf_uname :: string
  uf_role :: string
  uf_active :: bool

text \<open>
  \<open>users.username\<close> is \<open>UNIQUE\<close>: the insert raises \<open>sqlite3.IntegrityError\<close>, which the
  handler catches before \<open>audit\<close> is reached.
\<close>

definition add_user :: "clock \<Rightarrow> string \<Rightarrow> user_input \<Rightarrow> db \<Rightarrow> db \<times> outcome" where
  "add_user clk user f d =
     (if uf_uname f = [] then (d, Nothing_shown)
      else if uf_uname f \<in> set (map u_username (users d))
      then (d, St_error ''Nombre de usuario ya existe.'')
      else
        let d1 = d\<lparr>users := users d @
                   [\<lparr>u_id = next_rowid (map u_id (users d)), u_username = uf_uname f,
                     u_role = uf_role f, u_active = (if uf_active f then 1 else 0),
                     u_created_at = now_ts clk\<rparr>]\<rparr>;
            d2 = audit clk ''user'' (uf_uname f) ''create'' user (Some [(''role'', uf_role f)]) d1
        in (d2, St_success ''Usuario creado.''))"

subsection \<open>Auditoria: form \<open>add_coc\<close>\<close>

record coc_input =
  cf_event :: string
  cf_notes :: string

definition add_coc :: "clock \<Rightarrow> string \<Rightarrow> string \<Rightarrow> coc_input \<Rightarrow> db \<Rightarrow> db \<times> outcome" where
  "add_coc clk user sid f d =
     (if sid = [] \<or> cf_event f = [] then (d, Nothing_shown)
      else
        let d1 = insert_coc clk sid (cf_event f) user (cf_notes f) d;
            d2 = audit clk ''coc'' sid ''add_event'' user (Some [(''event'', cf_event f)]) d1
        in (d2, St_success ''Evento agregado a la cadena de custodia.''))"

subsection \<open>Dashboard: the due-soon query\<close>

text \<open>
  \<open>WHERE s.due_at IS NOT NULL AND DATE(s.due_at) <= DATE('now','+7 day') AND s.status NOT
  IN ('cerrado','cancelado') ORDER BY s.due_at ASC\<close>. The page shows five columns of each
  row; the model returns the rows. The sort key is read on rows that passed the filter
  only, where the due date is not null.
\<close>

definition due_soon_row :: "clock \<Rightarrow> sample_row \<Rightarrow> bool" where
  "due_soon_row clk s =
     ((case s_due_at s of None \<Rightarrow> False | Some due \<Rightarrow> due \<le> sql_today clk + 7)
      \<and> s_status s \<notin> set [''cerrado'', ''cancelado''])"

definition due_soon :: "clock \<Rightarrow> db \<Rightarrow> sample_row list" where
  "due_soon clk d = sort_key (\<lambda>s. the (s_due_at s)) (filter (due_soon_row clk) (samples d))"

subsection \<open>One interaction\<close>

datatype action =
    Frm_sample sample_input
  | Edit_sample string sample_edit_input
  | Add_test string test_input
  | Edit_test int test_edit_input
  | Add_result result_input
  | Add_link string link_input
  | Qc_form qc_input
  | Qc_close int
  | Add_user user_input
  | Add_coc string coc_input

fun run_action ::
  "(string \<Rightarrow> pyfloat option) \<Rightarrow> clock \<Rightarrow> string \<Rightarrow> action \<Rightarrow> db \<Rightarrow> db \<times> outcome"
where
  "run_action py_float clk user (Frm_sample f) d = frm_sample clk user f d"
| "run_action py_float clk user (Edit_sample sid f) d = edit_sample clk user sid f d"
| "run_action py_float clk user (Add_test sid2 f) d = add_test clk user sid2 f d"
| "run_action py_float clk user (Edit_test tid f) d = edit_test clk user tid f d"
| "run_action py_float clk user (Add_result f) d = add_result py_float clk user f d"
| "run_action py_float clk user (Add_link sid f) d = add_link clk user sid f d"
| "run_action py_float clk user (Qc_form f) d = qc_form clk user f d"
| "run_action py_float clk user (Qc_close qid) d = qc_close clk user qid d"
| "run_action py_float clk user (Add_user f) d = add_user clk user f d"
| "run_action py_float clk user (Add_coc sid f) d = add_coc clk user sid f d"

text \<open>The script from its top: \<open>init_db()\<close>, then the handler.\<close>

definition script_run ::
  "(string \<Rightarrow> pyfloat option) \<Rightarrow> clock \<Rightarrow> string \<Rightarrow> action \<Rightarrow> db \<Rightarrow> db \<times> outcome"
where
  "script_run py_float clk user a d = run_action py_float clk user a (init_db clk d)"

text \<open>A history of the application: script runs one after the other, on what the last one left.\<close>

fun interactions ::
  "(string \<Rightarrow> pyfloat option) \<Rightarrow> (clock \<times> string \<times> action) list \<Rightarrow> db \<Rightarrow> db"
where
  "interactions py_float [] d = d"
| "interactions py_float ((clk, user, a) # rest) d =
     interactions py_float rest (fst (script_run py_float clk user a d))"

subsection \<open>Vocabulary of the properties\<close>

text \<open>Successive calls of \<open>next_sample_id\<close>, one per clock reading, stopping at an exception.\<close>

fun issue_ids :: "clock list \<Rightarrow> db \<Rightarrow> py_error + (string list \<times> db)" where
  "issue_ids [] d = Inr ([], d)"
| "issue_ids (clk # clks) d =
     (case next_sample_id clk d of
        Inl e \<Rightarrow> Inl e
      | Inr (sid, d1) \<Rightarrow>
          (case issue_ids clks d1 of
             Inl e \<Rightarrow> Inl e
           | Inr (sids, d2) \<Rightarrow> Inr (sid # sids, d2)))"

text \<open>What the sequencer has stored: the year text and the counter, when both rows read well.\<close>

definition seq_state :: "db \<Rightarrow> (string \<times> int) option" where
  "seq_state d =
     (case meta_select ''seq_ano'' d of
        [] \<Rightarrow> None
      | y # _ \<Rightarrow>
          (case meta_select ''seq_num'' d of
             [] \<Rightarrow> None
           | v # _ \<Rightarrow> (case py_int v of Inl _ \<Rightarrow> None | Inr n \<Rightarrow> Some (y, n))))"

text \<open>The number an identifier carries: the digits after its last dash, read in base ten.\<close>

definition id_seq :: "string \<Rightarrow> nat option" where
  "id_seq sid = parse_digits 0 (rev (takeWhile (\<lambda>c. c \<noteq> CHR ''-'') (rev sid)))"

definition succeeded :: "outcome \<Rightarrow> bool" where
  "succeeded out = (case out of St_success _ \<Rightarrow> True | _ \<Rightarrow> False)"

definition reported_error :: "outcome \<Rightarrow> bool" where
  "reported_error out = (case out of St_error _ \<Rightarrow> True | _ \<Rightarrow> False)"

text \<open>The fields the forms mark with a star, left empty.\<close>

fun missing_required :: "action \<Rightarrow> bool" where
  "missing_required (Frm_sample f) = (sf_client f = [])"
| "missing_required (Add_test sid2 f) = (tf_test_name f = [])"
| "missing_required (Add_result f) = (rf_analyte f = [])"
| "missing_required (Add_link sid f) = (lf_url f = [])"
| "missing_required (Add_user f) = (uf_uname f = [])"
| "missing_required (Add_coc sid f) = (cf_event f = [])"
| "missing_required _ = False"

definition is_bootstrap_admin :: "user_row \<Rightarrow> bool" where
  "is_bootstrap_admin u = (u_username u = ''admin'' \<and> u_role u = ''admin'' \<and> u_active u = 1)"

text \<open>Inputs of the examples: two clock readings and a database whose only rows are the
  two of the sequencer.\<close>

definition clock_2025 :: clock where
  "clock_2025 = \<lparr>now_year = 2025, now_ts = ''2025-08-28 10:00:00-0500'', sql_today = 20328\<rparr>"

definition clock_2026 :: clock where
  "clock_2026 = \<lparr>now_year = 2026, now_ts = ''2026-01-02 09:00:00-0500'', sql_today = 20455\<rparr>"

definition db_at :: "string \<Rightarrow> string \<Rightarrow> db" where
  "db_at y v = empty_db\<lparr>meta := [(''seq_ano'', y), (''seq_num'', v)]\<rparr>"

definition acme_water :: sample_input where
  "acme_water = \<lparr>sf_client = ''Acme'', sf_project = [], sf_matrix = ''agua'',
     sf_description = [], sf_received_at = 20328, sf_due_at = None, sf_priority = ''normal'',
     sf_status = ''registrado'', sf_location = [], sf_created_by = ''ana''\<rparr>"

definition icp_oes :: test_input where
  "icp_oes = \<lparr>tf_test_name = ''ICP-OES'', tf_method = [], tf_unit = [], tf_due_at = None\<rparr>"

definition fe_result :: result_input where
  "fe_result = \<lparr>rf_tid_r = 1, rf_analyte = ''Fe'', rf_value = PyFloat 12.5, rf_unit = ''mg/kg'',
     rf_unc = [], rf_notes = []\<rparr>"

definition open_qc_db :: db where
  "open_qc_db = empty_db\<lparr>qc_events :=
     [\<lparr>q_id = 3, q_type = ''mantenimiento'', q_instrument = ''Epsilon 4'', q_description = [],
       q_status = ''abierto'', q_at_time = ''2025-08-27 16:00:00-0500'', q_by_user = ''ana''\<rparr>]\<rparr>"

definition blank_result :: result_input where
  "blank_result = \<lparr>rf_tid_r = 7, rf_analyte = [], rf_value = PyFloat 0, rf_unit = [], rf_unc = [],
     rf_notes = []\<rparr>"

definition zn_result :: result_input where
  "zn_result = \<lparr>rf_tid_r = 7, rf_analyte = ''Zn'', rf_value = PyFloat 3, rf_unit = ''mg/kg'',
     rf_unc = [], rf_notes = []\<rparr>"

definition calibration :: qc_input where
  "calibration = \<lparr>qf_qtype = ''mantenimiento'', qf_instr = ''Epsilon 4'', qf_desc = []\<rparr>"

text \<open>Usernames are unique, and a user called \<open>admin\<close> is the one \<open>init_db\<close> makes.\<close>

definition users_ok :: "db \<Rightarrow> bool" where
  "users_ok d =
     (distinct (map u_username (users d))
      \<and> list_all (\<lambda>u. u_username u \<noteq> ''admin'' \<or> is_bootstrap_admin u) (users d))"

text \<open>Python's \<open>float\<close> on the two texts the examples enter (no other text is used).\<close>

definition float_of_example :: "string \<Rightarrow> pyfloat option" where
  "float_of_example s =
     (if s = ''0.5'' then Some (PyFloat 0.5) else if s = ''nan'' then Some PyNaN else None)"

definition fe_result_unc :: result_input where
  "fe_result_unc = fe_result\<lparr>rf_unc := ''0.5''\<rparr>"

definition fe_result_nan :: result_input where
  "fe_result_nan = fe_result\<lparr>rf_unc := ''nan''\<rparr>"

text \<open>A laboratory with one sample, one test on it and one open QC event, in which every
  operation of the pages can be run, and the inputs of those operations.\<close>

definition lab_db :: db where
  "lab_db = empty_db\<lparr>meta := [(''seq_ano'', ''2025''), (''seq_num'', ''1'')],
     users := [\<lparr>u_id = 1, u_username = ''admin'', u_role = ''admin'', u_active = 1,
                u_created_at = ''2025-08-27 09:00:00-0500''\<rparr>],
     samples := [\<lparr>s_id = ''S-2025-0001'', s_client = ''Acme'', s_project = [],
                  s_matrix = ''agua'', s_description = [], s_received_at = 20327,
                  s_due_at = None, s_status = ''registrado'', s_priority = ''normal'',
                  s_location = [], s_created_by = ''ana'',
                  s_created_at = ''2025-08-27 09:30:00-0500'',
                  s_updated_at = ''2025-08-27 09:30:00-0500''\<rparr>],
     tests := [\<lparr>t_id = 1, t_sample_id = ''S-2025-0001'', t_test_name = ''ICP-OES'',
                t_method = [], t_unit = [], t_status = ''pendiente'', t_assigned_to = None,
                t_due_at = None\<rparr>],
     qc_events := [\<lparr>q_id = 3, q_type = ''mantenimiento'', q_instrument = ''Epsilon 4'',
                    q_description = [], q_status = ''abierto'',
                    q_at_time = ''2025-08-27 16:00:00-0500'', q_by_user = ''ana''\<rparr>]\<rparr>"

definition acme_in_process :: sample_edit_input where
  "acme_in_process = \<lparr>se_client = ''Acme'', se_project = [], se_matrix = ''agua'',
     se_description = [], se_received_at = 20327, se_due_at = None,
     se_status = ''en_proceso'', se_priority = ''alta'', se_location = []\<rparr>"

definition assign_ana :: test_edit_input where
  "assign_ana = \<lparr>te_status = ''en_proceso'', te_assigned_to = ''ana'', te_due_at = None\<rparr>"

definition drive_folder :: link_input where
  "drive_folder = \<lparr>lf_label = ''Carpeta'', lf_url = ''https://drive.example/acme'',
     lf_notes = []\<rparr>"

definition new_analyst :: user_input where
  "new_analyst = \<lparr>uf_uname = ''luis'', uf_role = ''analyst'', uf_active = True\<rparr>"

definition admin_again :: user_input where
  "admin_again = \<lparr>uf_uname = ''admin'', uf_role = ''guest'', uf_active = True\<rparr>"

definition delivery :: coc_input where
  "delivery = \<lparr>cf_event = ''Entrega'', cf_notes = []\<rparr>"

section \<open>Properties\<close>

subsection \<open>Decimal text\<close>

lemma digit_cases:
  "d < 10 \<Longrightarrow> d = 0 \<or> d = 1 \<or> d = 2 \<or> d = 3 \<or> d = 4 \<or> d = 5 \<or> d = 6 \<or> d = 7 \<or> d = 8 \<or> d = (9::nat)"
  by arith

lemma digit_val_digit_char: "d < 10 \<Longrightarrow> digit_val (digit_char d) = Some d"
  using digit_cases [of d] by (auto simp: digit_val_def digit_char_def)

lemma digit_char_not_sign: "d < 10 \<Longrightarrow> digit_char d \<noteq> CHR ''-'' \<and> digit_char d \<noteq> CHR ''+''"
  using digit_cases [of d] by (auto simp: digit_char_def)

lemma parse_digits_snoc:
  "parse_digits acc (xs @ [c]) =
     (case parse_digits acc xs of None \<Rightarrow> None
      | Some a \<Rightarrow> (case digit_val c of None \<Rightarrow> None | Some d \<Rightarrow> Some (10 * a + d)))"
  by (induction xs arbitrary: acc) (auto split: option.splits)

lemma parse_digits_digits: "parse_digits 0 (digits n) = Some n"
proof (induction n rule: digits.induct)
  case (1 n)
  show ?case
  proof (cases "n < 10")
    case True
    then show ?thesis
      by (simp add: digits.simps [of n] digit_val_digit_char)
  next
    case False
    then have "parse_digits 0 (digits (n div 10)) = Some (n div 10)"
      using "1.IH" by simp
    then show ?thesis
      using False by (simp add: digits.simps [of n] parse_digits_snoc digit_val_digit_char)
  qed
qed

lemma digits_not_Nil: "digits n \<noteq> []"
  by (subst digits.simps) simp

lemma digits_no_sign: "c \<in> set (digits n) \<Longrightarrow> c \<noteq> CHR ''-'' \<and> c \<noteq> CHR ''+''"
proof (induction n rule: digits.induct)
  case (1 n)
  show ?case
  proof (cases "n < 10")
    case True
    then show ?thesis
      using "1.prems" by (simp add: digits.simps [of n] digit_char_not_sign)
  next
    case False
    then show ?thesis
      using "1.IH" "1.prems" by (auto simp: digits.simps [of n] digit_char_not_sign)
  qed
qed

lemma py_int_digits: "py_int (digits n) = Inr (int n)"
proof -
  obtain c cs where c: "digits n = c # cs"
    using digits_not_Nil [of n] by (cases "digits n") auto
  then have "c \<noteq> CHR ''-'' \<and> c \<noteq> CHR ''+''"
    using digits_no_sign [of c n] by simp
  then show ?thesis
    using c parse_digits_digits [of n] by (simp add: py_int_def)
qed

lemma py_int_py_str: "py_int (py_str i) = Inr i"
proof (cases "i < 0")
  case True
  then show ?thesis
    by (simp add: py_str_def py_int_def digits_not_Nil parse_digits_digits)
next
  case False
  then show ?thesis
    by (simp add: py_str_def py_int_digits)
qed

lemma parse_digits_zeros: "parse_digits 0 (replicate k CHR ''0'' @ xs) = parse_digits 0 xs"
  by (induction k) (simp_all add: digit_val_def)

lemma fmt_04d_nonneg:
  "0 \<le> i \<Longrightarrow> fmt_04d i = replicate (4 - length (digits (nat i))) CHR ''0'' @ digits (nat i)"
  by (simp add: fmt_04d_def Let_def)

lemma parse_fmt_04d: "0 \<le> i \<Longrightarrow> parse_digits 0 (fmt_04d i) = Some (nat i)"
  by (simp add: fmt_04d_nonneg parse_digits_zeros parse_digits_digits)

lemma fmt_04d_no_dash: "0 \<le> i \<Longrightarrow> CHR ''-'' \<notin> set (fmt_04d i)"
  using digits_no_sign [of "CHR ''-''" "nat i"] by (auto simp: fmt_04d_nonneg)

lemma length_digits_le: "0 < k \<Longrightarrow> length (digits n) \<le> k \<longleftrightarrow> n < 10 ^ k"
proof (induction n arbitrary: k rule: digits.induct)
  case (1 n)
  show ?case
  proof (cases "n < 10")
    case True
    have "(10::nat) ^ 1 \<le> 10 ^ k" using "1.prems" by (intro power_increasing) auto
    then show ?thesis
      using True "1.prems" by (simp add: digits.simps [of n])
  next
    case False
    obtain k' where k: "k = Suc k'" using "1.prems" by (cases k) auto
    show ?thesis
    proof (cases "k' = 0")
      case True
      then show ?thesis using False k by (simp add: digits.simps [of n] digits_not_Nil)
    next
      case nz: False
      then have "length (digits (n div 10)) \<le> k' \<longleftrightarrow> n div 10 < 10 ^ k'"
        using "1.IH" [of k'] False by simp
      moreover have "n div 10 < 10 ^ k' \<longleftrightarrow> n < 10 ^ Suc k'"
        by (simp add: div_less_iff_less_mult mult.commute)
      ultimately show ?thesis
        using False k by (simp add: digits.simps [of n])
    qed
  qed
qed

lemma length_fmt_04d: "0 \<le> i \<Longrightarrow> 4 \<le> length (fmt_04d i) \<and> (length (fmt_04d i) = 4 \<longleftrightarrow> i \<le> 9999)"
proof -
  assume i: "0 \<le> i"
  have "length (digits (nat i)) \<le> 4 \<longleftrightarrow> nat i < 10 ^ 4"
    by (rule length_digits_le) simp
  then have "length (digits (nat i)) \<le> 4 \<longleftrightarrow> i \<le> 9999"
    using i by auto
  then show ?thesis
    using i by (auto simp: fmt_04d_nonneg)
qed

lemma id_seq_sample_id: "0 \<le> i \<Longrightarrow> id_seq (''S-'' @ y @ ''-'' @ fmt_04d i) = Some (nat i)"
proof -
  assume i: "0 \<le> i"
  have "takeWhile (\<lambda>c. c \<noteq> CHR ''-'') (rev (fmt_04d i) @ CHR ''-'' # rev y @ ''-S'') = rev (fmt_04d i)"
    using fmt_04d_no_dash [OF i] by (subst takeWhile_append2) auto
  then show ?thesis
    using i by (simp add: id_seq_def parse_fmt_04d)
qed

lemma select_update_same:
  "map snd (filter (\<lambda>kv. fst kv = k) (map (\<lambda>kv. if fst kv = k then (k, v) else kv) m)) =
     map (\<lambda>_. v) (map snd (filter (\<lambda>kv. fst kv = k) m))"
  by (induction m) auto

lemma select_update_other:
  "k' \<noteq> k \<Longrightarrow>
     map snd (filter (\<lambda>kv. fst kv = k') (map (\<lambda>kv. if fst kv = k then (k, v) else kv) m)) =
     map snd (filter (\<lambda>kv. fst kv = k') m)"
  by (induction m) auto

lemma meta_select_update_same:
  "meta_select k (update_meta k v d) = map (\<lambda>_. v) (meta_select k d)"
  by (simp add: meta_select_def update_meta_def select_update_same)

lemma meta_select_update_other:
  "k' \<noteq> k \<Longrightarrow> meta_select k' (update_meta k v d) = meta_select k' d"
  by (simp add: meta_select_def update_meta_def select_update_other)

lemma next_sample_id_step:
  assumes "seq_state d = Some (y, n)"
  shows "\<exists>d'. next_sample_id clk d =
            Inr (''S-'' @ py_str (now_year clk) @ ''-'' @
                 fmt_04d (if y = py_str (now_year clk) then n + 1 else 1), d')
          \<and> seq_state d' =
              Some (py_str (now_year clk), if y = py_str (now_year clk) then n + 1 else 1)
          \<and> users d' = users d \<and> samples d' = samples d \<and> tests d' = tests d
          \<and> results d' = results d \<and> attachments d' = attachments d \<and> coc d' = coc d
          \<and> audit_tbl d' = audit_tbl d \<and> qc_events d' = qc_events d"
proof -
  obtain ys where ys: "meta_select ''seq_ano'' d = y # ys"
    using assms by (auto simp: seq_state_def split: list.splits sum.splits)
  obtain v vs where vs: "meta_select ''seq_num'' d = v # vs" and v: "py_int v = Inr n"
    using assms by (auto simp: seq_state_def split: list.splits sum.splits)
  show ?thesis
  proof (cases "y = py_str (now_year clk)")
    case True
    then show ?thesis
      using ys vs v
      by (simp add: next_sample_id_def Let_def seq_state_def meta_select_update_same
          meta_select_update_other py_int_py_str)
        (simp add: update_meta_def)
  next
    case False
    then show ?thesis
      using ys vs v
      by (simp add: next_sample_id_def Let_def seq_state_def meta_select_update_same
          meta_select_update_other py_int_py_str)
        (simp add: update_meta_def)
  qed
qed


lemma sample_id_inj:
  "0 \<le> i \<Longrightarrow> 0 \<le> j \<Longrightarrow> ''S-'' @ y @ ''-'' @ fmt_04d i = ''S-'' @ y @ ''-'' @ fmt_04d j \<Longrightarrow> i = j"
  using parse_fmt_04d [of i] parse_fmt_04d [of j] by simp

lemma issue_ids_run:
  assumes "seq_state d = Some (y, n)" and "\<forall>clk\<in>set clks. now_year clk = yr"
  shows "\<exists>d'. issue_ids clks d =
            Inr (map (\<lambda>k. ''S-'' @ py_str yr @ ''-'' @
                          fmt_04d ((if y = py_str yr then n + 1 else 1) + int k))
                   [0..<length clks], d')
          \<and> (clks \<noteq> [] \<longrightarrow>
               seq_state d' =
                 Some (py_str yr, (if y = py_str yr then n + 1 else 1) + int (length clks) - 1))"
  using assms
proof (induction clks arbitrary: d y n)
  case Nil
  then show ?case by simp
next
  case (Cons clk clks)
  let ?first = "if y = py_str yr then n + 1 else 1"
  have yr: "now_year clk = yr" and rest: "\<forall>c\<in>set clks. now_year c = yr"
    using Cons.prems(2) by auto
  obtain d1 where d1: "next_sample_id clk d = Inr (''S-'' @ py_str yr @ ''-'' @ fmt_04d ?first, d1)"
    and s1: "seq_state d1 = Some (py_str yr, ?first)"
    using next_sample_id_step [OF Cons.prems(1), of clk] yr by auto
  obtain d2 where d2: "issue_ids clks d1 =
      Inr (map (\<lambda>k. ''S-'' @ py_str yr @ ''-'' @ fmt_04d (?first + 1 + int k)) [0..<length clks], d2)"
    and s2: "clks \<noteq> [] \<longrightarrow> seq_state d2 = Some (py_str yr, ?first + 1 + int (length clks) - 1)"
    using Cons.IH [OF s1 rest] by auto
  have shift: "map (\<lambda>k. ''S-'' @ py_str yr @ ''-'' @ fmt_04d (?first + int k)) [0..<length (clk # clks)] =
      (''S-'' @ py_str yr @ ''-'' @ fmt_04d ?first) #
      map (\<lambda>k. ''S-'' @ py_str yr @ ''-'' @ fmt_04d (?first + 1 + int k)) [0..<length clks]"
  proof -
    have u: "[0..<Suc (length clks)] = 0 # map Suc [0..<length clks]"
      by (subst upt_conv_Cons) (simp_all only: zero_less_Suc map_Suc_upt)
    have "\<And>k. ?first + int (Suc k) = ?first + 1 + int k"
      by simp
    then show ?thesis
      by (simp only: length_Cons u list.map map_map o_def of_nat_0 add_0_right)
  qed
  have "issue_ids (clk # clks) d =
      Inr (map (\<lambda>k. ''S-'' @ py_str yr @ ''-'' @ fmt_04d (?first + int k)) [0..<length (clk # clks)], d2)"
    unfolding shift using d1 d2 by simp
  moreover have "seq_state d2 = Some (py_str yr, ?first + int (length (clk # clks)) - 1)"
  proof (cases "clks = []")
    case True
    then show ?thesis using d2 s1 by simp
  next
    case False
    then show ?thesis using s2 by simp
  qed
  ultimately show ?case by blast
qed

lemma ids_distinct:
  "0 \<le> first \<Longrightarrow>
   distinct (map (\<lambda>k. ''S-'' @ y @ ''-'' @ fmt_04d (first + int k)) [0..<m])"
proof -
  assume f: "0 \<le> first"
  have "inj_on (\<lambda>k. ''S-'' @ y @ ''-'' @ fmt_04d (first + int k)) (set [0..<m])"
  proof (rule inj_onI)
    fix a b
    assume "''S-'' @ y @ ''-'' @ fmt_04d (first + int a) = ''S-'' @ y @ ''-'' @ fmt_04d (first + int b)"
    then have "first + int a = first + int b"
      using f by (intro sample_id_inj [of _ _ y]) simp_all
    then show "a = b" by simp
  qed
  then show ?thesis
    by (simp add: distinct_map)
qed

lemma replicate_small:
  "replicate 3 c = [c, c, c]" "replicate 2 c = [c, c]"
  by (simp_all add: numeral_3_eq_3 numeral_2_eq_2)

lemmas num_eval = py_str_def py_int_def fmt_04d_def digits.simps digit_char_def digit_val_def
  Let_def replicate_small

lemma seq_state_db_at: "py_int v = Inr n \<Longrightarrow> seq_state (db_at y v) = Some (y, n)"
  by (simp add: seq_state_def meta_select_def db_at_def empty_db_def)

subsection \<open>C1: the identifier sequencer\<close>

text \<open>
  Claim C1, as the code has it. Take a database whose sequencer rows read as year text \<open>y\<close>
  and counter \<open>n \<ge> 0\<close>, and any number of calls of \<open>next_sample_id\<close> made while the
  calendar year is \<open>yr\<close>. Every call returns; the identifiers are \<open>S-<yr>-<seq>\<close> with
  \<open>seq\<close> running through \<open>first, first + 1, ...\<close>, where \<open>first\<close> is \<open>n + 1\<close> when the
  stored year is the current one and \<open>1\<close> when the year has changed; the numbers read
  back from the identifiers are these, each one more than the one before; the identifiers
  are pairwise distinct; the stored state afterwards is the current year and the last
  number issued. The number is printed with at least four digits, zero-padded: with four
  exactly as long as it is at most 9999, with more beyond (where the claim's "4-digit"
  fails).
\<close>

theorem sample_ids_of_one_year:
  assumes "seq_state d = Some (y, n)" and "0 \<le> n" and "\<forall>clk\<in>set clks. now_year clk = yr"
  shows "let first = (if y = py_str yr then n + 1 else 1);
             ids = map (\<lambda>k. ''S-'' @ py_str yr @ ''-'' @ fmt_04d (first + int k)) [0..<length clks]
         in (\<exists>d'. issue_ids clks d = Inr (ids, d')
                \<and> (clks \<noteq> [] \<longrightarrow>
                     seq_state d' = Some (py_str yr, first + int (length clks) - 1)))
            \<and> map id_seq ids = map (\<lambda>k. Some (nat first + k)) [0..<length clks]
            \<and> distinct ids
            \<and> (\<forall>k. 4 \<le> length (fmt_04d (first + int k))
                   \<and> (length (fmt_04d (first + int k)) = 4 \<longleftrightarrow> first + int k \<le> 9999))"
proof -
  let ?first = "if y = py_str yr then n + 1 else 1"
  have f: "0 \<le> ?first" using assms(2) by simp
  have a: "\<exists>d'. issue_ids clks d =
            Inr (map (\<lambda>k. ''S-'' @ py_str yr @ ''-'' @ fmt_04d (?first + int k)) [0..<length clks], d')
          \<and> (clks \<noteq> [] \<longrightarrow> seq_state d' = Some (py_str yr, ?first + int (length clks) - 1))"
    by (rule issue_ids_run [OF assms(1) assms(3)])
  have b: "map id_seq (map (\<lambda>k. ''S-'' @ py_str yr @ ''-'' @ fmt_04d (?first + int k)) [0..<length clks]) =
      map (\<lambda>k. Some (nat ?first + k)) [0..<length clks]"
    using f by (simp add: id_seq_sample_id nat_add_distrib del: append.simps)
  have c: "distinct (map (\<lambda>k. ''S-'' @ py_str yr @ ''-'' @ fmt_04d (?first + int k)) [0..<length clks])"
    by (rule ids_distinct [OF f])
  have e: "\<forall>k. 4 \<le> length (fmt_04d (?first + int k))
             \<and> (length (fmt_04d (?first + int k)) = 4 \<longleftrightarrow> ?first + int k \<le> 9999)"
    using f length_fmt_04d by simp
  show ?thesis
    unfolding Let_def using a b c e by blast
qed

theorem sample_ids_of_one_year_witness:
  "seq_state (db_at ''2025'' ''0'') = Some (''2025'', 0)
   \<and> map_sum id fst (issue_ids [clock_2025, clock_2025] (db_at ''2025'' ''0'')) =
       Inr [''S-2025-0001'', ''S-2025-0002'']
   \<and> map_sum id fst (issue_ids [clock_2026] (db_at ''2025'' ''7'')) = Inr [''S-2026-0001'']"
proof -
  have y25: "py_str 2025 = ''2025''" and y26: "py_str 2026 = ''2026''"
    by (simp_all add: num_eval)
  have f: "fmt_04d 1 = ''0001''" "fmt_04d 2 = ''0002''"
    by (simp_all add: num_eval)
  have s0: "seq_state (db_at ''2025'' ''0'') = Some (''2025'', 0)"
    by (rule seq_state_db_at) (simp add: num_eval)
  have s7: "seq_state (db_at ''2025'' ''7'') = Some (''2025'', 7)"
    by (rule seq_state_db_at) (simp add: num_eval)
  have c25: "\<forall>clk\<in>set [clock_2025, clock_2025]. now_year clk = 2025"
    by (simp add: clock_2025_def)
  have c26: "\<forall>clk\<in>set [clock_2026]. now_year clk = 2026"
    by (simp add: clock_2026_def)
  have "\<exists>d'. issue_ids [clock_2025, clock_2025] (db_at ''2025'' ''0'') =
          Inr ([''S-2025-0001'', ''S-2025-0002''], d')"
    using sample_ids_of_one_year [OF s0 _ c25, unfolded Let_def, THEN conjunct1]
    by (auto simp add: y25 f simp del: issue_ids.simps)
  moreover have "\<exists>d'. issue_ids [clock_2026] (db_at ''2025'' ''7'') = Inr ([''S-2026-0001''], d')"
    using sample_ids_of_one_year [OF s7 _ c26, unfolded Let_def, THEN conjunct1]
    by (auto simp add: y25 y26 f simp del: issue_ids.simps)
  ultimately show ?thesis
    using s0 by auto
qed

text \<open>
  Claim C1 as stated fails on the width of the number: with the counter at 9999 the next
  identifier carries five digits.
\<close>

theorem next_sample_id_five_digits:
  "map_sum id fst (next_sample_id clock_2025 (db_at ''2025'' ''9999'')) = Inr ''S-2025-10000''"
  by (simp add: next_sample_id_def meta_select_def update_meta_def db_at_def empty_db_def
      clock_2025_def num_eval)

subsection \<open>Frames of the writes\<close>

lemma audit_appends:
  "audit_tbl (audit clk e i a u dt d) =
     audit_tbl d @ [\<lparr>au_id = next_rowid (map au_id (audit_tbl d)), au_entity = e,
        au_entity_id = i, au_action = a, au_by_user = u, au_at_time = now_ts clk,
        au_details = (case dt of None \<Rightarrow> [] | Some kvs \<Rightarrow> kvs)\<rparr>]"
  by (simp add: audit_def)

lemma audit_frame:
  "meta (audit clk e i a u dt d) = meta d" "users (audit clk e i a u dt d) = users d"
  "samples (audit clk e i a u dt d) = samples d" "tests (audit clk e i a u dt d) = tests d"
  "results (audit clk e i a u dt d) = results d"
  "attachments (audit clk e i a u dt d) = attachments d"
  "coc (audit clk e i a u dt d) = coc d" "qc_events (audit clk e i a u dt d) = qc_events d"
  by (simp_all add: audit_def)

lemma insert_coc_frame:
  "meta (insert_coc clk s e u n d) = meta d" "users (insert_coc clk s e u n d) = users d"
  "samples (insert_coc clk s e u n d) = samples d" "tests (insert_coc clk s e u n d) = tests d"
  "results (insert_coc clk s e u n d) = results d"
  "attachments (insert_coc clk s e u n d) = attachments d"
  "audit_tbl (insert_coc clk s e u n d) = audit_tbl d"
  "qc_events (insert_coc clk s e u n d) = qc_events d"
  by (simp_all add: insert_coc_def)

lemma next_sample_id_frame:
  "next_sample_id clk d = Inr (sid, d1) \<Longrightarrow> d1 = d\<lparr>meta := meta d1\<rparr>"
  by (auto simp: next_sample_id_def update_meta_def Let_def split: list.splits sum.splits if_splits)

lemma insert_sample_Inr:
  "insert_sample r d = Inr d2 \<Longrightarrow> d2 = d\<lparr>samples := samples d @ [r]\<rparr> \<and> s_id r \<notin> set (map s_id (samples d))"
  by (auto simp: insert_sample_def split: if_splits)

lemma frm_sample_audited:
  assumes "frm_sample clk user f d = (d', out)"
  shows "if succeeded out
         then \<exists>r. audit_tbl d' = audit_tbl d @ [r] \<and> au_entity r = ''sample''
                \<and> au_action r = ''create'' \<and> au_by_user r = user
         else d' = d\<lparr>meta := meta d'\<rparr>"
proof (cases "sf_client f = []")
  case True
  then show ?thesis using assms by (auto simp: frm_sample_def succeeded_def)
next
  case False
  show ?thesis
  proof (cases "next_sample_id clk d")
    case (Inl e)
    then show ?thesis using assms False by (auto simp: frm_sample_def succeeded_def)
  next
    case (Inr p)
    obtain sid d1 where p: "p = (sid, d1)" by (cases p)
    have d1: "d1 = d\<lparr>meta := meta d1\<rparr>"
      using Inr p by (auto dest: next_sample_id_frame)
    show ?thesis
    proof (cases "insert_sample \<lparr>s_id = sid, s_client = sf_client f, s_project = sf_project f,
                      s_matrix = sf_matrix f, s_description = sf_description f,
                      s_received_at = sf_received_at f, s_due_at = sf_due_at f,
                      s_status = sf_status f, s_priority = sf_priority f,
                      s_location = sf_location f, s_created_by = sf_created_by f,
                      s_created_at = now_ts clk, s_updated_at = now_ts clk\<rparr> d1")
      case (Inl e)
      then have "d' = d1" "out = Raised e"
        using assms False Inr p by (auto simp: frm_sample_def)
      then show ?thesis using d1 by (simp add: succeeded_def)
    next
      case ins: (Inr d2)
      have a2: "audit_tbl d2 = audit_tbl d"
        using insert_sample_Inr [OF ins] d1 by (metis db.select_convs(8) db.surjective db.update_convs(1,3))
      have "succeeded out" and
        "audit_tbl d' = audit_tbl d2 @ [\<lparr>au_id = next_rowid (map au_id (audit_tbl d2)), au_entity = ''sample'',
            au_entity_id = sid, au_action = ''create'', au_by_user = user, au_at_time = now_ts clk,
            au_details = [(''client'', sf_client f), (''priority'', sf_priority f)]\<rparr>]"
        using assms False Inr p ins
        by (auto simp: frm_sample_def Let_def succeeded_def insert_coc_frame audit_appends)
      then show ?thesis using a2 by simp
    qed
  qed
qed


lemma edit_sample_audited:
  assumes "edit_sample clk user sid f d = (d', out)"
  shows "if succeeded out
         then \<exists>r. audit_tbl d' = audit_tbl d @ [r] \<and> au_entity r = ''sample''
                \<and> au_action r = ''update'' \<and> au_by_user r = user
         else d' = d\<lparr>meta := meta d'\<rparr>"
  using assms
  by (auto simp: edit_sample_def Let_def succeeded_def audit_def split: if_splits list.splits)

lemma add_test_audited:
  assumes "add_test clk user sid2 f d = (d', out)"
  shows "if succeeded out
         then \<exists>r. audit_tbl d' = audit_tbl d @ [r] \<and> au_entity r = ''test''
                \<and> au_action r = ''create'' \<and> au_by_user r = user
         else d' = d\<lparr>meta := meta d'\<rparr>"
  using assms
  by (auto simp: add_test_def Let_def succeeded_def audit_def split: if_splits)

lemma edit_test_audited:
  assumes "edit_test clk user tid f d = (d', out)"
  shows "if succeeded out
         then \<exists>r. audit_tbl d' = audit_tbl d @ [r] \<and> au_entity r = ''test''
                \<and> au_action r = ''update'' \<and> au_by_user r = user
         else d' = d\<lparr>meta := meta d'\<rparr>"
  using assms
  by (auto simp: edit_test_def Let_def succeeded_def audit_def split: if_splits list.splits)

lemma add_result_audited:
  assumes "add_result py_float clk user f d = (d', out)"
  shows "if succeeded out
         then \<exists>r. audit_tbl d' = audit_tbl d @ [r] \<and> au_entity r = ''result''
                \<and> au_action r = ''create'' \<and> au_by_user r = user
         else d' = d\<lparr>meta := meta d'\<rparr>"
  using assms
  by (auto simp: add_result_def Let_def succeeded_def audit_def split: if_splits sum.splits)

lemma add_link_audited:
  assumes "add_link clk user sid f d = (d', out)"
  shows "if succeeded out
         then \<exists>r. audit_tbl d' = audit_tbl d @ [r] \<and> au_entity r = ''attachment''
                \<and> au_action r = ''create'' \<and> au_by_user r = user
         else d' = d\<lparr>meta := meta d'\<rparr>"
  using assms
  by (auto simp: add_link_def Let_def succeeded_def audit_def split: if_splits)

lemma qc_form_audited:
  assumes "qc_form clk user f d = (d', out)"
  shows "if succeeded out
         then \<exists>r. audit_tbl d' = audit_tbl d @ [r] \<and> au_entity r = ''qc''
                \<and> au_action r = ''create'' \<and> au_by_user r = user
         else d' = d\<lparr>meta := meta d'\<rparr>"
  using assms
  by (auto simp: qc_form_def Let_def succeeded_def audit_def)

lemma qc_close_audited:
  assumes "qc_close clk user qid d = (d', out)"
  shows "if succeeded out
         then \<exists>r. audit_tbl d' = audit_tbl d @ [r] \<and> au_entity r = ''qc''
                \<and> au_action r = ''close'' \<and> au_by_user r = user
         else d' = d\<lparr>meta := meta d'\<rparr>"
  using assms
  by (auto simp: qc_close_def Let_def succeeded_def audit_def split: if_splits)

lemma add_user_audited:
  assumes "add_user clk user f d = (d', out)"
  shows "if succeeded out
         then \<exists>r. audit_tbl d' = audit_tbl d @ [r] \<and> au_entity r = ''user''
                \<and> au_action r = ''create'' \<and> au_by_user r = user
         else d' = d\<lparr>meta := meta d'\<rparr>"
  using assms
  by (auto simp: add_user_def Let_def succeeded_def audit_def split: if_splits)

lemma add_coc_audited:
  assumes "add_coc clk user sid f d = (d', out)"
  shows "if succeeded out
         then \<exists>r. audit_tbl d' = audit_tbl d @ [r] \<and> au_entity r = ''coc''
                \<and> au_action r = ''add_event'' \<and> au_by_user r = user
         else d' = d\<lparr>meta := meta d'\<rparr>"
  using assms
  by (auto simp: add_coc_def Let_def succeeded_def audit_def insert_coc_def split: if_splits)

lemma frm_sample_acme:
  "frm_sample clock_2025 ''ana'' acme_water (db_at ''2025'' ''0'') =
     (\<lparr>meta = [(''seq_ano'', ''2025''), (''seq_num'', ''1'')], users = [],
       samples = [\<lparr>s_id = ''S-2025-0001'', s_client = ''Acme'', s_project = [],
          s_matrix = ''agua'', s_description = [], s_received_at = 20328, s_due_at = None,
          s_status = ''registrado'', s_priority = ''normal'', s_location = [],
          s_created_by = ''ana'', s_created_at = ''2025-08-28 10:00:00-0500'',
          s_updated_at = ''2025-08-28 10:00:00-0500''\<rparr>],
       tests = [], results = [], attachments = [],
       coc = [\<lparr>c_id = 1, c_sample_id = ''S-2025-0001'', c_event = ''Registro'',
          c_by_user = ''ana'', c_at_time = ''2025-08-28 10:00:00-0500'',
          c_notes = ''Muestra creada''\<rparr>],
       audit_tbl = [\<lparr>au_id = 1, au_entity = ''sample'', au_entity_id = ''S-2025-0001'',
          au_action = ''create'', au_by_user = ''ana'', au_at_time = ''2025-08-28 10:00:00-0500'',
          au_details = [(''client'', ''Acme''), (''priority'', ''normal'')]\<rparr>],
       qc_events = []\<rparr>, St_success ''Muestra creada: S-2025-0001'')"
  by (simp add: frm_sample_def next_sample_id_def meta_select_def update_meta_def db_at_def
      empty_db_def clock_2025_def acme_water_def insert_sample_def insert_coc_def audit_def
      next_rowid_def num_eval)

subsection \<open>C2: one audit record per operation\<close>

text \<open>
  Each handler, under the conditions the source puts before its writes, shows its success
  message and leaves the audit table one row longer; \<open>init_db\<close> never writes to it.
\<close>

lemma frm_sample_goes_through:
  assumes "sf_client f \<noteq> []" and "next_sample_id clk d = Inr (sid, d1)"
    and "sid \<notin> set (map s_id (samples d))"
  shows "snd (frm_sample clk user f d) = St_success (''Muestra creada: '' @ sid)
    \<and> (\<exists>r. audit_tbl (fst (frm_sample clk user f d)) = audit_tbl d @ [r]
          \<and> au_entity r = ''sample'' \<and> au_entity_id r = sid \<and> au_action r = ''create''
          \<and> au_by_user r = user)
    \<and> (\<exists>c. coc (fst (frm_sample clk user f d)) = coc d @ [c] \<and> c_event c = ''Registro'')"
proof -
  obtain m where d1: "d1 = d\<lparr>meta := m\<rparr>"
    using next_sample_id_frame [OF assms(2)] by blast
  show ?thesis
    using assms
    by (simp add: frm_sample_def insert_sample_def d1 Let_def audit_def insert_coc_def)
qed

lemma edit_sample_goes_through:
  assumes "sid \<noteq> []" and "filter (\<lambda>s. s_id s = sid) (samples d) = rec # rest"
    and "s_status rec \<in> set sample_statuses" and "s_priority rec \<in> set priorities"
  shows "snd (edit_sample clk user sid f d) = St_success ''Actualizado.''
    \<and> (\<exists>r. audit_tbl (fst (edit_sample clk user sid f d)) = audit_tbl d @ [r]
          \<and> au_entity r = ''sample'' \<and> au_entity_id r = sid \<and> au_action r = ''update''
          \<and> au_by_user r = user)"
  using assms by (simp add: edit_sample_def Let_def audit_def)

lemma add_test_goes_through:
  assumes "sid2 \<noteq> []" and "tf_test_name f \<noteq> []"
  shows "snd (add_test clk user sid2 f d) = St_success ''Ensayo agregado.''
    \<and> (\<exists>r. audit_tbl (fst (add_test clk user sid2 f d)) = audit_tbl d @ [r]
          \<and> au_entity r = ''test'' \<and> au_entity_id r = sid2 \<and> au_action r = ''create''
          \<and> au_by_user r = user)"
  using assms by (simp add: add_test_def Let_def audit_def)

lemma edit_test_goes_through:
  assumes "tid \<noteq> 0" and "filter (\<lambda>t. t_id t = tid) (tests d) = row # rest"
    and "t_status row \<in> set test_statuses"
  shows "snd (edit_test clk user tid f d) = St_success ''Ensayo actualizado.''
    \<and> (\<exists>r. audit_tbl (fst (edit_test clk user tid f d)) = audit_tbl d @ [r]
          \<and> au_entity r = ''test'' \<and> au_entity_id r = py_str tid \<and> au_action r = ''update''
          \<and> au_by_user r = user)"
  using assms by (simp add: edit_test_def Let_def audit_def)

lemma add_result_goes_through:
  assumes "rf_analyte f \<noteq> []" and "rf_tid_r f \<noteq> 0"
    and "rf_unc f = [] \<or> py_float (rf_unc f) \<noteq> None"
  shows "snd (add_result py_float clk user f d) = St_success ''Resultado guardado.''
    \<and> (\<exists>r. audit_tbl (fst (add_result py_float clk user f d)) = audit_tbl d @ [r]
          \<and> au_entity r = ''result'' \<and> au_entity_id r = py_str (rf_tid_r f)
          \<and> au_action r = ''create'' \<and> au_by_user r = user)"
  using assms by (auto simp add: add_result_def unc_value_def Let_def audit_def)

lemma add_link_goes_through:
  assumes "sid \<noteq> []" and "lf_url f \<noteq> []"
  shows "snd (add_link clk user sid f d) = St_success ''Adjunto registrado.''
    \<and> (\<exists>r. audit_tbl (fst (add_link clk user sid f d)) = audit_tbl d @ [r]
          \<and> au_entity r = ''attachment'' \<and> au_entity_id r = sid \<and> au_action r = ''create''
          \<and> au_by_user r = user)"
  using assms by (simp add: add_link_def Let_def audit_def)

lemma qc_form_goes_through:
  "snd (qc_form clk user f d) = St_success ''Evento QC registrado.''
    \<and> (\<exists>r. audit_tbl (fst (qc_form clk user f d)) = audit_tbl d @ [r]
          \<and> au_entity r = ''qc'' \<and> au_entity_id r = ''-'' \<and> au_action r = ''create''
          \<and> au_by_user r = user)"
  by (simp add: qc_form_def Let_def audit_def)

lemma qc_close_goes_through:
  assumes "qid \<noteq> 0"
  shows "snd (qc_close clk user qid d) = St_success ''Evento QC cerrado.''
    \<and> (\<exists>r. audit_tbl (fst (qc_close clk user qid d)) = audit_tbl d @ [r]
          \<and> au_entity r = ''qc'' \<and> au_entity_id r = py_str qid \<and> au_action r = ''close''
          \<and> au_by_user r = user)"
  using assms by (simp add: qc_close_def Let_def audit_def)

lemma add_user_goes_through:
  assumes "uf_uname f \<noteq> []" and "uf_uname f \<notin> set (map u_username (users d))"
  shows "snd (add_user clk user f d) = St_success ''Usuario creado.''
    \<and> (\<exists>r. audit_tbl (fst (add_user clk user f d)) = audit_tbl d @ [r]
          \<and> au_entity r = ''user'' \<and> au_entity_id r = uf_uname f \<and> au_action r = ''create''
          \<and> au_by_user r = user)"
  using assms by (simp add: add_user_def Let_def audit_def)

lemma add_coc_goes_through:
  assumes "sid \<noteq> []" and "cf_event f \<noteq> []"
  shows "snd (add_coc clk user sid f d) = St_success ''Evento agregado a la cadena de custodia.''
    \<and> (\<exists>r. audit_tbl (fst (add_coc clk user sid f d)) = audit_tbl d @ [r]
          \<and> au_entity r = ''coc'' \<and> au_entity_id r = sid \<and> au_action r = ''add_event''
          \<and> au_by_user r = user)"
  using assms by (simp add: add_coc_def Let_def audit_def insert_coc_def)

lemma init_db_audit: "audit_tbl (init_db clk d) = audit_tbl d"
  by (simp add: init_db_def Let_def)

lemma run_action_audited:
  assumes "run_action py_float clk user a d = (d', out)"
  shows "if succeeded out
         then \<exists>r. audit_tbl d' = audit_tbl d @ [r] \<and> au_by_user r = user
         else d' = d\<lparr>meta := meta d'\<rparr>"
proof (cases a)
  case (Frm_sample f)
  then show ?thesis using assms frm_sample_audited [of clk user f d d' out] by auto
next
  case (Edit_sample sid f)
  then show ?thesis using assms edit_sample_audited [of clk user sid f d d' out] by auto
next
  case (Add_test sid2 f)
  then show ?thesis using assms add_test_audited [of clk user sid2 f d d' out] by auto
next
  case (Edit_test tid f)
  then show ?thesis using assms edit_test_audited [of clk user tid f d d' out] by auto
next
  case (Add_result f)
  then show ?thesis using assms add_result_audited [of py_float clk user f d d' out] by auto
next
  case (Add_link sid f)
  then show ?thesis using assms add_link_audited [of clk user sid f d d' out] by auto
next
  case (Qc_form f)
  then show ?thesis using assms qc_form_audited [of clk user f d d' out] by auto
next
  case (Qc_close qid)
  then show ?thesis using assms qc_close_audited [of clk user qid d d' out] by auto
next
  case (Add_user f)
  then show ?thesis using assms add_user_audited [of clk user f d d' out] by auto
next
  case (Add_coc sid f)
  then show ?thesis using assms add_coc_audited [of clk user sid f d d' out] by auto
qed

lemma run_action_one_or_none:
  "case snd (run_action py_float clk user a d) of
     St_success msg \<Rightarrow>
       \<exists>r. audit_tbl (fst (run_action py_float clk user a d)) = audit_tbl d @ [r]
          \<and> au_by_user r = user
   | _ \<Rightarrow> fst (run_action py_float clk user a d) =
           d\<lparr>meta := meta (fst (run_action py_float clk user a d))\<rparr>"
proof -
  have "run_action py_float clk user a d =
      (fst (run_action py_float clk user a d), snd (run_action py_float clk user a d))"
    by simp
  from run_action_audited [OF this] show ?thesis
    by (cases "snd (run_action py_float clk user a d)") (simp_all add: succeeded_def)
qed

text \<open>
  Claim C2, as the code has it. Each of the ten operations of the pages, run by the session
  user \<open>user\<close> under the conditions the source puts before its writes, goes through: the
  page shows the success message of the operation, and the audit table afterwards is the
  audit table before plus exactly one row, which carries the entity kind, the entity id and
  the action of that operation and \<open>user\<close> as acting user. The conditions are: for a
  registration, a client, an identifier from the sequencer, and no sample of that
  identifier yet; for the edit of a sample, a stored sample of that identifier whose status
  and priority are options of the select boxes; for a new test, a sample identifier and a
  test name; for the edit of a test, a stored test of that id whose status is an option of
  the select box; for a result, an analyte, a test id and an uncertainty text that is
  empty or that \<open>float\<close> reads; for an attachment, a sample identifier and a URL; for a QC
  event, none; for the close of a QC event, an id; for a user, a name that no user has; for
  a chain-of-custody event, a sample identifier and an event. The record is one per
  operation, not one per row written: a registration also appends the chain-of-custody
  event \<open>Registro\<close>, beside its single audit row. Whatever the input, an operation either
  shows its success message, and then the audit table has grown by exactly one row whose
  acting user is \<open>user\<close>, or it shows something else (nothing, a warning, an error, an
  exception), and then no table other than \<open>meta\<close> has changed, the audit table
  included. \<open>init_db\<close>, which inserts the \<open>admin\<close> user, appends no audit row.
\<close>

theorem each_operation_appends_its_audit_record:
  "(sf_client sf \<noteq> [] \<and> next_sample_id clk d = Inr (new_sid, d1)
      \<and> new_sid \<notin> set (map s_id (samples d)) \<longrightarrow>
        snd (frm_sample clk user sf d) = St_success (''Muestra creada: '' @ new_sid)
        \<and> (\<exists>r. audit_tbl (fst (frm_sample clk user sf d)) = audit_tbl d @ [r]
              \<and> au_entity r = ''sample'' \<and> au_entity_id r = new_sid
              \<and> au_action r = ''create'' \<and> au_by_user r = user)
        \<and> (\<exists>c. coc (fst (frm_sample clk user sf d)) = coc d @ [c]
              \<and> c_event c = ''Registro''))
   \<and> (sid \<noteq> [] \<and> filter (\<lambda>s. s_id s = sid) (samples d) = rec # recs
      \<and> s_status rec \<in> set sample_statuses \<and> s_priority rec \<in> set priorities \<longrightarrow>
        snd (edit_sample clk user sid se d) = St_success ''Actualizado.''
        \<and> (\<exists>r. audit_tbl (fst (edit_sample clk user sid se d)) = audit_tbl d @ [r]
              \<and> au_entity r = ''sample'' \<and> au_entity_id r = sid
              \<and> au_action r = ''update'' \<and> au_by_user r = user))
   \<and> (sid2 \<noteq> [] \<and> tf_test_name tf \<noteq> [] \<longrightarrow>
        snd (add_test clk user sid2 tf d) = St_success ''Ensayo agregado.''
        \<and> (\<exists>r. audit_tbl (fst (add_test clk user sid2 tf d)) = audit_tbl d @ [r]
              \<and> au_entity r = ''test'' \<and> au_entity_id r = sid2
              \<and> au_action r = ''create'' \<and> au_by_user r = user))
   \<and> (tid \<noteq> 0 \<and> filter (\<lambda>t. t_id t = tid) (tests d) = row # rows
      \<and> t_status row \<in> set test_statuses \<longrightarrow>
        snd (edit_test clk user tid te d) = St_success ''Ensayo actualizado.''
        \<and> (\<exists>r. audit_tbl (fst (edit_test clk user tid te d)) = audit_tbl d @ [r]
              \<and> au_entity r = ''test'' \<and> au_entity_id r = py_str tid
              \<and> au_action r = ''update'' \<and> au_by_user r = user))
   \<and> (rf_analyte rf \<noteq> [] \<and> rf_tid_r rf \<noteq> 0
      \<and> (rf_unc rf = [] \<or> py_float (rf_unc rf) \<noteq> None) \<longrightarrow>
        snd (add_result py_float clk user rf d) = St_success ''Resultado guardado.''
        \<and> (\<exists>r. audit_tbl (fst (add_result py_float clk user rf d)) = audit_tbl d @ [r]
              \<and> au_entity r = ''result'' \<and> au_entity_id r = py_str (rf_tid_r rf)
              \<and> au_action r = ''create'' \<and> au_by_user r = user))
   \<and> (sid3 \<noteq> [] \<and> lf_url lf \<noteq> [] \<longrightarrow>
        snd (add_link clk user sid3 lf d) = St_success ''Adjunto registrado.''
        \<and> (\<exists>r. audit_tbl (fst (add_link clk user sid3 lf d)) = audit_tbl d @ [r]
              \<and> au_entity r = ''attachment'' \<and> au_entity_id r = sid3
              \<and> au_action r = ''create'' \<and> au_by_user r = user))
   \<and> (snd (qc_form clk user qf d) = St_success ''Evento QC registrado.''
        \<and> (\<exists>r. audit_tbl (fst (qc_form clk user qf d)) = audit_tbl d @ [r]
              \<and> au_entity r = ''qc'' \<and> au_entity_id r = ''-''
              \<and> au_action r = ''create'' \<and> au_by_user r = user))
   \<and> (qid \<noteq> 0 \<longrightarrow>
        snd (qc_close clk user qid d) = St_success ''Evento QC cerrado.''
        \<and> (\<exists>r. audit_tbl (fst (qc_close clk user qid d)) = audit_tbl d @ [r]
              \<and> au_entity r = ''qc'' \<and> au_entity_id r = py_str qid
              \<and> au_action r = ''close'' \<and> au_by_user r = user))
   \<and> (uf_uname uf \<noteq> [] \<and> uf_uname uf \<notin> set (map u_username (users d)) \<longrightarrow>
        snd (add_user clk user uf d) = St_success ''Usuario creado.''
        \<and> (\<exists>r. audit_tbl (fst (add_user clk user uf d)) = audit_tbl d @ [r]
              \<and> au_entity r = ''user'' \<and> au_entity_id r = uf_uname uf
              \<and> au_action r = ''create'' \<and> au_by_user r = user))
   \<and> (sid4 \<noteq> [] \<and> cf_event cf \<noteq> [] \<longrightarrow>
        snd (add_coc clk user sid4 cf d) = St_success ''Evento agregado a la cadena de custodia.''
        \<and> (\<exists>r. audit_tbl (fst (add_coc clk user sid4 cf d)) = audit_tbl d @ [r]
              \<and> au_entity r = ''coc'' \<and> au_entity_id r = sid4
              \<and> au_action r = ''add_event'' \<and> au_by_user r = user))
   \<and> (case snd (run_action py_float clk user a d) of
         St_success msg \<Rightarrow>
           \<exists>r. audit_tbl (fst (run_action py_float clk user a d)) = audit_tbl d @ [r]
              \<and> au_by_user r = user
       | _ \<Rightarrow> fst (run_action py_float clk user a d) =
               d\<lparr>meta := meta (fst (run_action py_float clk user a d))\<rparr>)
   \<and> audit_tbl (init_db clk d) = audit_tbl d"
  apply (intro conjI)
  subgoal by (rule impI, elim conjE, rule frm_sample_goes_through; assumption)
  subgoal by (rule impI, elim conjE, rule edit_sample_goes_through; assumption)
  subgoal by (rule impI, elim conjE, rule add_test_goes_through; assumption)
  subgoal by (rule impI, elim conjE, rule edit_test_goes_through; assumption)
  subgoal by (rule impI, elim conjE, rule add_result_goes_through; assumption)
  subgoal by (rule impI, elim conjE, rule add_link_goes_through; assumption)
  subgoal by (simp add: qc_form_goes_through)
  subgoal by (simp add: qc_form_goes_through)
  subgoal by (rule impI, rule qc_close_goes_through; assumption)
  subgoal by (rule impI, elim conjE, rule add_user_goes_through; assumption)
  subgoal by (rule impI, elim conjE, rule add_coc_goes_through; assumption)
  subgoal by (rule run_action_one_or_none)
  subgoal by (rule init_db_audit)
  done

theorem each_operation_appends_its_audit_record_witness:
  "audit_tbl lab_db = [] \<and> coc lab_db = []
   \<and> snd (frm_sample clock_2025 ''ana'' acme_water lab_db) =
       St_success ''Muestra creada: S-2025-0002''
   \<and> (\<exists>r. audit_tbl (fst (frm_sample clock_2025 ''ana'' acme_water lab_db)) = [r]
         \<and> au_entity r = ''sample'' \<and> au_entity_id r = ''S-2025-0002''
         \<and> au_action r = ''create'' \<and> au_by_user r = ''ana'')
   \<and> (\<exists>c. coc (fst (frm_sample clock_2025 ''ana'' acme_water lab_db)) = [c]
         \<and> c_event c = ''Registro'')
   \<and> snd (edit_sample clock_2025 ''ana'' ''S-2025-0001'' acme_in_process lab_db) =
       St_success ''Actualizado.''
   \<and> (\<exists>r. audit_tbl (fst (edit_sample clock_2025 ''ana'' ''S-2025-0001'' acme_in_process
                              lab_db)) = [r]
         \<and> au_entity r = ''sample'' \<and> au_entity_id r = ''S-2025-0001''
         \<and> au_action r = ''update'' \<and> au_by_user r = ''ana'')
   \<and> snd (add_test clock_2025 ''ana'' ''S-2025-0001'' icp_oes lab_db) =
       St_success ''Ensayo agregado.''
   \<and> (\<exists>r. audit_tbl (fst (add_test clock_2025 ''ana'' ''S-2025-0001'' icp_oes lab_db)) = [r]
         \<and> au_entity r = ''test'' \<and> au_entity_id r = ''S-2025-0001''
         \<and> au_action r = ''create'' \<and> au_by_user r = ''ana'')
   \<and> snd (edit_test clock_2025 ''ana'' 1 assign_ana lab_db) = St_success ''Ensayo actualizado.''
   \<and> (\<exists>r. audit_tbl (fst (edit_test clock_2025 ''ana'' 1 assign_ana lab_db)) = [r]
         \<and> au_entity r = ''test'' \<and> au_entity_id r = ''1''
         \<and> au_action r = ''update'' \<and> au_by_user r = ''ana'')
   \<and> snd (add_result float_of_example clock_2025 ''ana'' fe_result_unc lab_db) =
       St_success ''Resultado guardado.''
   \<and> (\<exists>r. audit_tbl (fst (add_result float_of_example clock_2025 ''ana'' fe_result_unc
                              lab_db)) = [r]
         \<and> au_entity r = ''result'' \<and> au_entity_id r = ''1''
         \<and> au_action r = ''create'' \<and> au_by_user r = ''ana'')
   \<and> snd (add_link clock_2025 ''ana'' ''S-2025-0001'' drive_folder lab_db) =
       St_success ''Adjunto registrado.''
   \<and> (\<exists>r. audit_tbl (fst (add_link clock_2025 ''ana'' ''S-2025-0001'' drive_folder lab_db)) = [r]
         \<and> au_entity r = ''attachment'' \<and> au_entity_id r = ''S-2025-0001''
         \<and> au_action r = ''create'' \<and> au_by_user r = ''ana'')
   \<and> snd (qc_form clock_2025 ''ana'' calibration lab_db) = St_success ''Evento QC registrado.''
   \<and> (\<exists>r. audit_tbl (fst (qc_form clock_2025 ''ana'' calibration lab_db)) = [r]
         \<and> au_entity r = ''qc'' \<and> au_entity_id r = ''-''
         \<and> au_action r = ''create'' \<and> au_by_user r = ''ana'')
   \<and> snd (qc_close clock_2025 ''ana'' 3 lab_db) = St_success ''Evento QC cerrado.''
   \<and> (\<exists>r. audit_tbl (fst (qc_close clock_2025 ''ana'' 3 lab_db)) = [r]
         \<and> au_entity r = ''qc'' \<and> au_entity_id r = ''3''
         \<and> au_action r = ''close'' \<and> au_by_user r = ''ana'')
   \<and> snd (add_user clock_2025 ''ana'' new_analyst lab_db) = St_success ''Usuario creado.''
   \<and> (\<exists>r. audit_tbl (fst (add_user clock_2025 ''ana'' new_analyst lab_db)) = [r]
         \<and> au_entity r = ''user'' \<and> au_entity_id r = ''luis''
         \<and> au_action r = ''create'' \<and> au_by_user r = ''ana'')
   \<and> snd (add_coc clock_2025 ''ana'' ''S-2025-0001'' delivery lab_db) =
       St_success ''Evento agregado a la cadena de custodia.''
   \<and> (\<exists>r. audit_tbl (fst (add_coc clock_2025 ''ana'' ''S-2025-0001'' delivery lab_db)) = [r]
         \<and> au_entity r = ''coc'' \<and> au_entity_id r = ''S-2025-0001''
         \<and> au_action r = ''add_event'' \<and> au_by_user r = ''ana'')
   \<and> snd (add_user clock_2025 ''ana'' admin_again lab_db) =
       St_error ''Nombre de usuario ya existe.''
   \<and> audit_tbl (fst (add_user clock_2025 ''ana'' admin_again lab_db)) = []
   \<and> audit_tbl (init_db clock_2025 lab_db) = []"
proof -
  note T = each_operation_appends_its_audit_record
    [where clk = clock_2025 and user = "''ana''" and d = lab_db
       and py_float = float_of_example and sf = acme_water
       and new_sid = "''S-2025-0002''"
       and ?d1.0 = "lab_db\<lparr>meta := [(''seq_ano'', ''2025''), (''seq_num'', ''2'')]\<rparr>"
       and sid = "''S-2025-0001''" and rec = "hd (samples lab_db)" and recs = "[]"
       and se = acme_in_process and ?sid2.0 = "''S-2025-0001''" and tf = icp_oes
       and tid = 1 and row = "hd (tests lab_db)" and rows = "[]" and te = assign_ana
       and rf = fe_result_unc and ?sid3.0 = "''S-2025-0001''" and lf = drive_folder
       and qf = calibration and qid = 3 and uf = new_analyst
       and ?sid4.0 = "''S-2025-0001''" and cf = delivery and a = "Add_user admin_again"]
  have e: "audit_tbl lab_db = []" "coc lab_db = []"
    by (simp_all add: lab_db_def empty_db_def)
  have g1: "sf_client acme_water \<noteq> []"
    "next_sample_id clock_2025 lab_db =
       Inr (''S-2025-0002'', lab_db\<lparr>meta := [(''seq_ano'', ''2025''), (''seq_num'', ''2'')]\<rparr>)"
    "''S-2025-0002'' \<notin> set (map s_id (samples lab_db))"
    by (simp_all add: acme_water_def next_sample_id_def meta_select_def update_meta_def
        lab_db_def empty_db_def clock_2025_def num_eval)
  have g2: "filter (\<lambda>s. s_id s = ''S-2025-0001'') (samples lab_db) = [hd (samples lab_db)]"
    "s_status (hd (samples lab_db)) \<in> set sample_statuses"
    "s_priority (hd (samples lab_db)) \<in> set priorities"
    by (simp_all add: lab_db_def empty_db_def sample_statuses_def priorities_def)
  have g3: "tf_test_name icp_oes \<noteq> []"
    by (simp add: icp_oes_def)
  have g4: "filter (\<lambda>t. t_id t = 1) (tests lab_db) = [hd (tests lab_db)]"
    "t_status (hd (tests lab_db)) \<in> set test_statuses"
    by (simp_all add: lab_db_def empty_db_def test_statuses_def)
  have g5: "rf_analyte fe_result_unc \<noteq> []" "rf_tid_r fe_result_unc = 1"
    "float_of_example (rf_unc fe_result_unc) \<noteq> None"
    by (simp_all add: fe_result_unc_def fe_result_def float_of_example_def)
  have g6: "lf_url drive_folder \<noteq> []"
    by (simp add: drive_folder_def)
  have g9: "uf_uname new_analyst = ''luis''" "''luis'' \<notin> set (map u_username (users lab_db))"
    by (simp_all add: new_analyst_def lab_db_def empty_db_def)
  have g10: "cf_event delivery \<noteq> []"
    by (simp add: delivery_def)
  have g11: "snd (add_user clock_2025 ''ana'' admin_again lab_db) =
      St_error ''Nombre de usuario ya existe.''"
    by (simp add: add_user_def admin_again_def lab_db_def empty_db_def)
  have p: "py_str 1 = ''1''" "py_str 3 = ''3''"
    by (simp_all add: num_eval)
  from T g11 have "fst (add_user clock_2025 ''ana'' admin_again lab_db) =
      lab_db\<lparr>meta := meta (fst (add_user clock_2025 ''ana'' admin_again lab_db))\<rparr>"
    by simp
  then have "audit_tbl (fst (add_user clock_2025 ''ana'' admin_again lab_db)) =
      audit_tbl (lab_db\<lparr>meta := meta (fst (add_user clock_2025 ''ana'' admin_again lab_db))\<rparr>)"
    by (rule arg_cong)
  then have f: "audit_tbl (fst (add_user clock_2025 ''ana'' admin_again lab_db)) = []"
    by (simp add: e)
  show ?thesis
    using T g1 g2 g3 g4 g5 g6 g9 g10
    by (simp add: e f g11 p)
qed

text \<open>
  Claim C2 as stated fails on the chain-of-custody event of a registration. Registering
  the sample of client Acme, as user \<open>ana\<close>, in a database with no chain-of-custody event
  and no audit record, creates the chain-of-custody event \<open>Registro\<close>, and the audit
  table afterwards holds one record only, that of the creation of the sample: the creation
  of the chain-of-custody event has no audit record of its own.
\<close>

theorem registration_custody_event_without_audit_record:
  "coc (db_at ''2025'' ''0'') = [] \<and> audit_tbl (db_at ''2025'' ''0'') = []
   \<and> map c_event (coc (fst (frm_sample clock_2025 ''ana'' acme_water (db_at ''2025'' ''0'')))) =
       [''Registro'']
   \<and> map (\<lambda>r. (au_entity r, au_action r))
        (audit_tbl (fst (frm_sample clock_2025 ''ana'' acme_water (db_at ''2025'' ''0'')))) =
       [(''sample'', ''create'')]"
proof -
  have "coc (db_at ''2025'' ''0'') = [] \<and> audit_tbl (db_at ''2025'' ''0'') = []"
    by (simp add: db_at_def empty_db_def)
  then show ?thesis
    by (simp add: frm_sample_acme)
qed

subsection \<open>C3: adding a test\<close>

text \<open>
  Claim C3. With a non-empty sample identifier and a non-empty test name, \<open>add_test\<close>
  succeeds and leaves the database as it was but for two appended rows: one test, whose
  status is \<open>pendiente\<close> (the pending status, the schema's default) and whose sample
  identifier is the one supplied, and one audit record with entity \<open>test\<close> and action
  \<open>create\<close>. The example is sample \<open>S-2025-0001\<close> with test \<open>ICP-OES\<close>.
\<close>

theorem add_test_creates_pending_test:
  assumes "sid2 \<noteq> []" and "tf_test_name f \<noteq> []"
  shows "\<exists>t r. add_test clk user sid2 f d =
            (d\<lparr>tests := tests d @ [t], audit_tbl := audit_tbl d @ [r]\<rparr>,
             St_success ''Ensayo agregado.'')
          \<and> t_status t = ''pendiente'' \<and> t_sample_id t = sid2
          \<and> t_test_name t = tf_test_name f
          \<and> au_entity r = ''test'' \<and> au_action r = ''create''"
  using assms
  by (simp add: add_test_def Let_def audit_def) (intro exI conjI, rule refl, simp_all)

theorem add_test_creates_pending_test_witness:
  "''S-2025-0001'' \<noteq> [] \<and> tf_test_name icp_oes \<noteq> []
   \<and> (\<exists>t r. add_test clock_2025 ''ana'' ''S-2025-0001'' icp_oes
                (fst (frm_sample clock_2025 ''ana'' acme_water (db_at ''2025'' ''0''))) =
              ((fst (frm_sample clock_2025 ''ana'' acme_water (db_at ''2025'' ''0'')))
                 \<lparr>tests := [t],
                  audit_tbl := audit_tbl (fst (frm_sample clock_2025 ''ana'' acme_water
                                                 (db_at ''2025'' ''0''))) @ [r]\<rparr>,
               St_success ''Ensayo agregado.'')
            \<and> t_status t = ''pendiente'' \<and> t_sample_id t = ''S-2025-0001''
            \<and> au_entity r = ''test'' \<and> au_action r = ''create'')"
proof -
  have n: "tf_test_name icp_oes \<noteq> []" by (simp add: icp_oes_def)
  have e: "tests (fst (frm_sample clock_2025 ''ana'' acme_water (db_at ''2025'' ''0''))) = []"
    by (simp add: frm_sample_acme)
  have s: "''S-2025-0001'' \<noteq> []" by simp
  show ?thesis
    using add_test_creates_pending_test [OF s n, of clock_2025 "''ana''"
        "fst (frm_sample clock_2025 ''ana'' acme_water (db_at ''2025'' ''0''))"] n e
    by (simp del: One_nat_def) blast
qed

subsection \<open>C4: the due-soon listing\<close>

text \<open>
  Claim C4. A sample is in the due-soon listing exactly when it is in the samples table,
  its due date is not null and at most seven days after today, and its status is neither
  \<open>cerrado\<close> (closed) nor \<open>cancelado\<close> (cancelled).
\<close>

theorem due_soon_exact:
  "(s \<in> set (due_soon clk d)) =
     (s \<in> set (samples d)
      \<and> (\<exists>due. s_due_at s = Some due \<and> due \<le> sql_today clk + 7)
      \<and> s_status s \<noteq> ''cerrado'' \<and> s_status s \<noteq> ''cancelado'')"
  by (auto simp: due_soon_def due_soon_row_def split: option.splits)

lemma due_soon_sorted: "sorted (map (\<lambda>s. the (s_due_at s)) (due_soon clk d))"
  by (simp add: due_soon_def)

subsection \<open>C6: results keep what was entered\<close>

lemma add_result_writes:
  assumes "rf_analyte f \<noteq> []" and "rf_tid_r f \<noteq> 0"
    and "unc_value py_float (rf_unc f) = Inr u"
  shows "add_result py_float clk user f d =
     (d\<lparr>results := results d @
          [\<lparr>r_id = next_rowid (map r_id (results d)), r_test_id = rf_tid_r f,
            r_analyte = rf_analyte f, r_value = sql_bind_real (Some (rf_value f)),
            r_unit = rf_unit f, r_uncertainty = sql_bind_real u, r_notes = rf_notes f,
            r_measured_at = now_ts clk\<rparr>],
        audit_tbl := audit_tbl d @
          [\<lparr>au_id = next_rowid (map au_id (audit_tbl d)), au_entity = ''result'',
            au_entity_id = py_str (rf_tid_r f), au_action = ''create'', au_by_user = user,
            au_at_time = now_ts clk, au_details = [(''analyte'', rf_analyte f)]\<rparr>]\<rparr>,
      St_success ''Resultado guardado.'')"
  using assms by (simp add: add_result_def Let_def audit_def)

lemma unc_value_read:
  "rf_unc f = [] \<or> py_float (rf_unc f) \<noteq> None \<Longrightarrow>
   unc_value py_float (rf_unc f) = Inr (if rf_unc f = [] then None else py_float (rf_unc f))"
  by (auto simp: unc_value_def)

lemma add_result_bad_uncertainty:
  "rf_analyte f \<noteq> [] \<Longrightarrow> rf_tid_r f \<noteq> 0 \<Longrightarrow> rf_unc f \<noteq> [] \<Longrightarrow>
   py_float (rf_unc f) = None \<Longrightarrow> add_result py_float clk user f d = (d, Raised ValueError)"
  by (simp add: add_result_def unc_value_def)

text \<open>
  Claim C6, as the code has it. When the analyte is given, the test id is not 0 and the
  uncertainty text is empty or accepted by \<open>float\<close>, \<open>add_result\<close> succeeds and appends one
  result row and one audit row, nothing else. The row's test id is the one supplied. Its
  value is the value supplied and its uncertainty is what \<open>float\<close> made of the text (null
  for an empty text), with one exception: NaN is stored as null. The results view of that
  test id shows the rows it showed before followed by the new one. In the example (test id
  1, analyte Fe, value 12.5, uncertainty \<open>0.5\<close>, no result stored before) the view has
  exactly one record, with value 12.5 and uncertainty 0.5.
\<close>

theorem add_result_round_trip:
  assumes "rf_analyte f \<noteq> []" and "rf_tid_r f \<noteq> 0"
    and "rf_unc f = [] \<or> py_float (rf_unc f) \<noteq> None"
  shows "\<exists>r a. add_result py_float clk user f d =
            (d\<lparr>results := results d @ [r], audit_tbl := audit_tbl d @ [a]\<rparr>,
             St_success ''Resultado guardado.'')
          \<and> r_test_id r = rf_tid_r f \<and> r_analyte r = rf_analyte f
          \<and> r_value r = (if rf_value f = PyNaN then None else Some (rf_value f))
          \<and> r_uncertainty r =
              (if rf_unc f = [] \<or> py_float (rf_unc f) = Some PyNaN then None
               else py_float (rf_unc f))
          \<and> results_view (rf_tid_r f) (fst (add_result py_float clk user f d)) =
              Some (filter (\<lambda>x. r_test_id x = rf_tid_r f) (results d) @ [r])"
proof -
  let ?u = "if rf_unc f = [] then None else py_float (rf_unc f)"
  let ?r = "\<lparr>r_id = next_rowid (map r_id (results d)), r_test_id = rf_tid_r f,
            r_analyte = rf_analyte f, r_value = sql_bind_real (Some (rf_value f)),
            r_unit = rf_unit f, r_uncertainty = sql_bind_real ?u, r_notes = rf_notes f,
            r_measured_at = now_ts clk\<rparr>"
  let ?a = "\<lparr>au_id = next_rowid (map au_id (audit_tbl d)), au_entity = ''result'',
            au_entity_id = py_str (rf_tid_r f), au_action = ''create'', au_by_user = user,
            au_at_time = now_ts clk, au_details = [(''analyte'', rf_analyte f)]\<rparr>"
  have w: "add_result py_float clk user f d =
      (d\<lparr>results := results d @ [?r], audit_tbl := audit_tbl d @ [?a]\<rparr>,
       St_success ''Resultado guardado.'')"
    by (rule add_result_writes [OF assms(1,2) unc_value_read [where f = f and py_float = py_float, OF assms(3)]])
  have v: "results_view (rf_tid_r f) (fst (add_result py_float clk user f d)) =
      Some (filter (\<lambda>x. r_test_id x = rf_tid_r f) (results d) @ [?r])"
    using assms(2) by (simp add: w results_view_def)
  have x: "r_value ?r = (if rf_value f = PyNaN then None else Some (rf_value f))"
    by (simp add: sql_bind_real_def)
  have y: "r_uncertainty ?r =
      (if rf_unc f = [] \<or> py_float (rf_unc f) = Some PyNaN then None else py_float (rf_unc f))"
    using assms(3) by (auto simp: sql_bind_real_def split: option.splits)
  have z: "r_test_id ?r = rf_tid_r f" "r_analyte ?r = rf_analyte f"
    by simp_all
  show ?thesis
    using w v x y z by blast
qed

theorem add_result_round_trip_witness:
  "rf_analyte fe_result_unc \<noteq> [] \<and> rf_tid_r fe_result_unc \<noteq> 0
   \<and> float_of_example (rf_unc fe_result_unc) = Some (PyFloat 0.5)
   \<and> (\<exists>r. results_view 1 (fst (add_result float_of_example clock_2025 ''ana'' fe_result_unc
                                   empty_db)) = Some [r]
          \<and> r_test_id r = 1 \<and> r_value r = Some (PyFloat 12.5)
          \<and> r_uncertainty r = Some (PyFloat 0.5))"
proof -
  have a: "rf_analyte fe_result_unc \<noteq> []" and t: "rf_tid_r fe_result_unc \<noteq> 0"
    and u: "rf_unc fe_result_unc = [] \<or> float_of_example (rf_unc fe_result_unc) \<noteq> None"
    and p: "float_of_example (rf_unc fe_result_unc) = Some (PyFloat 0.5)"
    by (simp_all add: fe_result_unc_def fe_result_def float_of_example_def)
  have v: "rf_tid_r fe_result_unc = 1" "rf_value fe_result_unc = PyFloat 12.5"
    "rf_unc fe_result_unc \<noteq> []" "results empty_db = []"
    by (simp_all add: fe_result_unc_def fe_result_def empty_db_def)
  show ?thesis
    using add_result_round_trip [where f = fe_result_unc and py_float = float_of_example
        and clk = clock_2025 and user = "''ana''" and d = empty_db, OF a t u] a t p
    by (auto simp: v)
qed

text \<open>
  Claim C6 as stated fails on the uncertainty \<open>nan\<close>: \<open>float\<close> accepts the text, the page
  reports success, and the record read back has no uncertainty.
\<close>

theorem nan_uncertainty_reads_back_null:
  "float_of_example (rf_unc fe_result_nan) = Some PyNaN
   \<and> snd (add_result float_of_example clock_2025 ''ana'' fe_result_nan empty_db) =
       St_success ''Resultado guardado.''
   \<and> map_option (map r_uncertainty)
       (results_view 1 (fst (add_result float_of_example clock_2025 ''ana'' fe_result_nan
                               empty_db))) = Some [None]"
  by (simp add: add_result_def unc_value_def results_view_def audit_def sql_bind_real_def
      fe_result_nan_def fe_result_def float_of_example_def empty_db_def Let_def)

subsection \<open>C7: closing a QC event\<close>

lemma qc_close_events:
  "qid \<noteq> 0 \<Longrightarrow>
   qc_events (fst (qc_close clk user qid d)) =
     map (\<lambda>q. if q_id q = qid then q\<lparr>q_status := ''cerrado''\<rparr> else q) (qc_events d)"
  by (simp add: qc_close_def Let_def audit_def)

lemma qc_close_outcome:
  "qid \<noteq> 0 \<Longrightarrow> snd (qc_close clk user qid d) = St_success ''Evento QC cerrado.''"
  by (simp add: qc_close_def Let_def)

lemma close_twice:
  "map (\<lambda>q. if q_id q = qid then q\<lparr>q_status := ''cerrado''\<rparr> else q)
     (map (\<lambda>q. if q_id q = qid then q\<lparr>q_status := ''cerrado''\<rparr> else q) qs) =
   map (\<lambda>q. if q_id q = qid then q\<lparr>q_status := ''cerrado''\<rparr> else q) qs"
  by (induction qs) simp_all

lemma closed_after:
  assumes "q \<in> set (map (\<lambda>q. if q_id q = qid then q\<lparr>q_status := ''cerrado''\<rparr> else q) qs)"
    and "q_id q = qid"
  shows "q_status q = ''cerrado''"
proof -
  obtain q0 where q0: "q = (if q_id q0 = qid then q0\<lparr>q_status := ''cerrado''\<rparr> else q0)"
    using assms(1) unfolding set_map by blast
  show ?thesis
  proof (cases "q_id q0 = qid")
    case True
    then show ?thesis using q0 by simp
  next
    case False
    then show ?thesis using q0 assms(2) by simp
  qed
qed

text \<open>
  Claim C7. For an event id other than 0, the close button succeeds; afterwards every QC
  event with that id has status \<open>cerrado\<close> (closed) and no other event has changed.
  Pressing it again, by any user at any time, succeeds as well, raises nothing, and leaves
  the table of QC events as the first close left it. (Each press appends its own audit
  record.)
\<close>

theorem qc_close_idempotent:
  assumes "qid \<noteq> 0"
  shows "snd (qc_close clk user qid d) = St_success ''Evento QC cerrado.''
    \<and> qc_events (fst (qc_close clk user qid d)) =
        map (\<lambda>q. if q_id q = qid then q\<lparr>q_status := ''cerrado''\<rparr> else q) (qc_events d)
    \<and> (\<forall>q. q \<in> set (qc_events (fst (qc_close clk user qid d))) \<and> q_id q = qid
            \<longrightarrow> q_status q = ''cerrado'')
    \<and> snd (qc_close clk2 user2 qid (fst (qc_close clk user qid d))) =
        St_success ''Evento QC cerrado.''
    \<and> qc_events (fst (qc_close clk2 user2 qid (fst (qc_close clk user qid d)))) =
        qc_events (fst (qc_close clk user qid d))"
proof -
  have a: "snd (qc_close clk user qid d) = St_success ''Evento QC cerrado.''"
    and b: "snd (qc_close clk2 user2 qid (fst (qc_close clk user qid d))) =
        St_success ''Evento QC cerrado.''"
    by (rule qc_close_outcome [OF assms])+
  have c: "qc_events (fst (qc_close clk user qid d)) =
        map (\<lambda>q. if q_id q = qid then q\<lparr>q_status := ''cerrado''\<rparr> else q) (qc_events d)"
    by (rule qc_close_events [OF assms])
  have e: "\<forall>q. q \<in> set (qc_events (fst (qc_close clk user qid d))) \<and> q_id q = qid
            \<longrightarrow> q_status q = ''cerrado''"
    unfolding c using closed_after by blast
  have f: "qc_events (fst (qc_close clk2 user2 qid (fst (qc_close clk user qid d)))) =
        qc_events (fst (qc_close clk user qid d))"
    by (simp only: qc_close_events [OF assms] close_twice)
  show ?thesis
    using a b c e f by blast
qed

theorem qc_close_idempotent_witness:
  "(3::int) \<noteq> 0
   \<and> map q_status (qc_events open_qc_db) = [''abierto'']
   \<and> map q_status (qc_events (fst (qc_close clock_2025 ''ana'' 3 open_qc_db))) = [''cerrado'']
   \<and> snd (qc_close clock_2025 ''luis'' 3 (fst (qc_close clock_2025 ''ana'' 3 open_qc_db))) =
       St_success ''Evento QC cerrado.''
   \<and> map q_status (qc_events (fst (qc_close clock_2025 ''luis'' 3
                                      (fst (qc_close clock_2025 ''ana'' 3 open_qc_db))))) =
       [''cerrado'']"
proof -
  have z: "(3::int) \<noteq> 0" by simp
  have q: "qc_events open_qc_db =
     [\<lparr>q_id = 3, q_type = ''mantenimiento'', q_instrument = ''Epsilon 4'', q_description = [],
       q_status = ''abierto'', q_at_time = ''2025-08-27 16:00:00-0500'', q_by_user = ''ana''\<rparr>]"
    by (simp add: open_qc_db_def)
  show ?thesis
    using qc_close_idempotent [OF z, of clock_2025 "''ana''" open_qc_db clock_2025 "''luis''"]
    by (simp add: q)
qed

subsection \<open>C5: a missing required field\<close>

text \<open>
  What every form does when the field it marks as required is empty (the client of a
  registration, the name of a test, the analyte of a result, the URL of an attachment, the
  name of a user, the event of a chain-of-custody entry): it writes nothing, so the
  database afterwards is the database before. The registration form says so on the page
  (\<open>Cliente es obligatorio.\<close>); the five others show nothing.
\<close>

lemma missing_required_field_writes_nothing:
  assumes "missing_required a"
  shows "run_action py_float clk user a d =
     (d, case a of Frm_sample f \<Rightarrow> St_error ''Cliente es obligatorio.'' | _ \<Rightarrow> Nothing_shown)"
  using assms
  by (cases a)
    (simp_all add: frm_sample_def add_test_def add_result_def add_link_def add_user_def
      add_coc_def)

lemma registration_without_client:
  "run_action (\<lambda>_. None) clock_2025 ''ana'' (Frm_sample (acme_water\<lparr>sf_client := []\<rparr>))
     (db_at ''2025'' ''0'') =
   (db_at ''2025'' ''0'', St_error ''Cliente es obligatorio.'')"
  by (simp add: frm_sample_def)

text \<open>
  Claim C5 asks for a reported validation error and no write whenever a required field is
  missing. The registration form does both, as the lemmas above show; the result form,
  whose label \<open>Analito *\<close> marks the analyte as required, does not report: submitted with
  test id 7 and no analyte on the empty database, it leaves the database as it was and
  shows no message at all. The forms for tests, attachments, users and chain-of-custody
  events share the defect.
\<close>

theorem missing_analyte_not_reported:
  "run_action (\<lambda>_. None) clock_2025 ''ana'' (Add_result blank_result) empty_db =
     (empty_db, Nothing_shown)
   \<and> \<not> reported_error (snd (run_action (\<lambda>_. None) clock_2025 ''ana'' (Add_result blank_result)
                              empty_db))"
  by (simp add: add_result_def blank_result_def reported_error_def)

subsection \<open>C8: registration opens the chain of custody\<close>

text \<open>
  Claim C8. Whenever a registration succeeds, with identifier \<open>sid\<close>, the samples table
  has gained the row of \<open>sid\<close> and the chain-of-custody table has gained exactly one row:
  for sample \<open>sid\<close>, with event \<open>Registro\<close>, the session user as acting user and the
  note \<open>Muestra creada\<close>. So the chain of custody of the new sample is not empty.
\<close>

theorem registration_opens_chain_of_custody:
  assumes "frm_sample clk user f d = (d', St_success msg)"
  shows "\<exists>sid s c. msg = ''Muestra creada: '' @ sid
           \<and> samples d' = samples d @ [s] \<and> s_id s = sid
           \<and> coc d' = coc d @ [c] \<and> c_sample_id c = sid \<and> c_event c = ''Registro''
           \<and> c_by_user c = user \<and> c_notes c = ''Muestra creada''
           \<and> filter (\<lambda>c. c_sample_id c = sid) (coc d') \<noteq> []"
proof -
  have cl: "sf_client f \<noteq> []"
    using assms by (auto simp: frm_sample_def)
  obtain sid d1 where n: "next_sample_id clk d = Inr (sid, d1)"
    using assms cl by (cases "next_sample_id clk d") (auto simp: frm_sample_def)
  let ?s = "\<lparr>s_id = sid, s_client = sf_client f, s_project = sf_project f,
      s_matrix = sf_matrix f, s_description = sf_description f,
      s_received_at = sf_received_at f, s_due_at = sf_due_at f,
      s_status = sf_status f, s_priority = sf_priority f,
      s_location = sf_location f, s_created_by = sf_created_by f,
      s_created_at = now_ts clk, s_updated_at = now_ts clk\<rparr>"
  obtain d2 where i: "insert_sample ?s d1 = Inr d2"
    using assms cl n by (cases "insert_sample ?s d1") (auto simp: frm_sample_def)
  let ?c = "\<lparr>c_id = next_rowid (map c_id (coc d)), c_sample_id = sid, c_event = ''Registro'',
      c_by_user = user, c_at_time = now_ts clk, c_notes = ''Muestra creada''\<rparr>"
  have d1: "samples d1 = samples d" "coc d1 = coc d"
    using next_sample_id_frame [OF n] by (metis db.select_convs(3) db.surjective db.update_convs(1),
        metis db.select_convs(7) db.surjective db.update_convs(1))
  have d2: "samples d2 = samples d @ [?s]" "coc d2 = coc d"
    using insert_sample_Inr [OF i] d1 by simp_all
  have r: "d' = insert_coc clk sid ''Registro'' user ''Muestra creada''
             (audit clk ''sample'' sid ''create'' user
                (Some [(''client'', sf_client f), (''priority'', sf_priority f)]) d2)"
    and m: "msg = ''Muestra creada: '' @ sid"
    using assms cl n i by (simp_all add: frm_sample_def Let_def)
  have s': "samples d' = samples d @ [?s]"
    by (simp add: r insert_coc_frame audit_frame d2)
  have c': "coc d' = coc d @ [?c]"
    by (simp add: r insert_coc_def audit_frame d2)
  show ?thesis
    by (rule exI [of _ sid], rule exI [of _ ?s], rule exI [of _ ?c]) (simp add: m s' c')
qed

theorem registration_opens_chain_of_custody_witness:
  "frm_sample clock_2025 ''ana'' acme_water (db_at ''2025'' ''0'') =
     (fst (frm_sample clock_2025 ''ana'' acme_water (db_at ''2025'' ''0'')),
      St_success ''Muestra creada: S-2025-0001'')
   \<and> (\<exists>c. coc (fst (frm_sample clock_2025 ''ana'' acme_water (db_at ''2025'' ''0''))) = [c]
          \<and> c_sample_id c = ''S-2025-0001'' \<and> c_event c = ''Registro''
          \<and> c_by_user c = ''ana'' \<and> c_notes c = ''Muestra creada'')"
proof -
  have run: "frm_sample clock_2025 ''ana'' acme_water (db_at ''2025'' ''0'') =
     (fst (frm_sample clock_2025 ''ana'' acme_water (db_at ''2025'' ''0'')),
      St_success ''Muestra creada: S-2025-0001'')"
    by (simp add: frm_sample_acme)
  have e: "coc (db_at ''2025'' ''0'') = []"
    by (simp add: db_at_def empty_db_def)
  show ?thesis
    using registration_opens_chain_of_custody [OF run] run e by auto
qed

subsection \<open>C10: what the audit record of a creation points at\<close>

lemma py_str_not_dash: "py_str k \<noteq> ''-''"
  using digits_not_Nil digits_no_sign [of "CHR ''-''" "nat k"]
  by (auto simp: py_str_def)

text \<open>
  Claim C10. The audit record written when a test is created carries, as its entity id,
  the sample identifier that was typed, whatever row id the new test gets; the one
  written when a result is created carries the text of the test id that was typed,
  whatever row id the new result gets; the one written when a QC event is created carries
  the text \<open>-\<close>, which is the decimal text of no row id. So none of the three can be
  joined to the created row through the entity id.
\<close>

theorem audit_entity_id_of_creations:
  assumes "sid2 \<noteq> []" and "tf_test_name tf \<noteq> []"
    and "rf_analyte rf \<noteq> []" and "rf_tid_r rf \<noteq> 0"
    and "unc_value py_float (rf_unc rf) = Inr u"
  shows "au_entity_id (last (audit_tbl (fst (add_test clk user sid2 tf d)))) = sid2
    \<and> t_id (last (tests (fst (add_test clk user sid2 tf d)))) = next_rowid (map t_id (tests d))
    \<and> au_entity_id (last (audit_tbl (fst (add_result py_float clk user rf d)))) =
        py_str (rf_tid_r rf)
    \<and> r_id (last (results (fst (add_result py_float clk user rf d)))) =
        next_rowid (map r_id (results d))
    \<and> au_entity_id (last (audit_tbl (fst (qc_form clk user qf d)))) = ''-''
    \<and> q_id (last (qc_events (fst (qc_form clk user qf d)))) = next_rowid (map q_id (qc_events d))
    \<and> (\<forall>k. py_str k \<noteq> ''-'')"
proof -
  have a: "au_entity_id (last (audit_tbl (fst (add_test clk user sid2 tf d)))) = sid2
    \<and> t_id (last (tests (fst (add_test clk user sid2 tf d)))) = next_rowid (map t_id (tests d))"
    using assms(1,2) by (simp add: add_test_def Let_def audit_def)
  have b: "au_entity_id (last (audit_tbl (fst (add_result py_float clk user rf d)))) =
        py_str (rf_tid_r rf)
    \<and> r_id (last (results (fst (add_result py_float clk user rf d)))) =
        next_rowid (map r_id (results d))"
    by (simp add: add_result_writes [OF assms(3,4,5)])
  have c: "au_entity_id (last (audit_tbl (fst (qc_form clk user qf d)))) = ''-''
    \<and> q_id (last (qc_events (fst (qc_form clk user qf d)))) = next_rowid (map q_id (qc_events d))"
    by (simp add: qc_form_def Let_def audit_def)
  show ?thesis
    using a b c py_str_not_dash by blast
qed

theorem audit_entity_id_of_creations_witness:
  "au_entity_id (last (audit_tbl (fst (add_test clock_2025 ''ana'' ''S-2025-0001'' icp_oes
                                        empty_db)))) = ''S-2025-0001''
   \<and> t_id (last (tests (fst (add_test clock_2025 ''ana'' ''S-2025-0001'' icp_oes empty_db)))) = 1
   \<and> au_entity_id (last (audit_tbl (fst (add_result (\<lambda>_. None) clock_2025 ''ana'' zn_result
                                           empty_db)))) = ''7''
   \<and> r_id (last (results (fst (add_result (\<lambda>_. None) clock_2025 ''ana'' zn_result
                                 empty_db)))) = 1
   \<and> au_entity_id (last (audit_tbl (fst (qc_form clock_2025 ''ana'' calibration empty_db)))) =
       ''-''
   \<and> q_id (last (qc_events (fst (qc_form clock_2025 ''ana'' calibration empty_db)))) = 1"
proof -
  have s: "''S-2025-0001'' \<noteq> []" by simp
  have n: "tf_test_name icp_oes \<noteq> []" by (simp add: icp_oes_def)
  have a: "rf_analyte zn_result \<noteq> []" and t: "rf_tid_r zn_result \<noteq> 0"
    and u: "unc_value (\<lambda>_. None) (rf_unc zn_result) = Inr None"
    by (simp_all add: zn_result_def unc_value_def)
  have e: "tests empty_db = []" "results empty_db = []" "qc_events empty_db = []"
    by (simp_all add: empty_db_def)
  have k: "py_str (rf_tid_r zn_result) = ''7''"
    by (simp add: zn_result_def num_eval)
  show ?thesis
    using audit_entity_id_of_creations [OF s n a t u, of clock_2025 "''ana''" empty_db calibration]
    by (simp add: e k next_rowid_def)
qed

subsection \<open>C9: \<open>init_db\<close> is an idempotent bootstrap\<close>

lemma init_db_established:
  "meta_select ''seq_ano'' (init_db clk d) \<noteq> []"
  "meta_select ''seq_num'' (init_db clk d) \<noteq> []"
  "filter (\<lambda>u. u_username u = ''admin'') (users (init_db clk d)) \<noteq> []"
  by (simp_all add: init_db_def Let_def meta_select_def)

lemma init_db_fixed:
  "meta_select ''seq_ano'' d \<noteq> [] \<Longrightarrow> meta_select ''seq_num'' d \<noteq> [] \<Longrightarrow>
   filter (\<lambda>u. u_username u = ''admin'') (users d) \<noteq> [] \<Longrightarrow> init_db clk d = d"
  by (simp add: init_db_def Let_def)

lemma init_db_twice: "init_db clk2 (init_db clk d) = init_db clk d"
  by (rule init_db_fixed) (rule init_db_established)+

lemma init_db_meta_select:
  "meta_select ''seq_ano'' (init_db clk d) =
     (if meta_select ''seq_ano'' d = [] then [py_str (now_year clk)] else meta_select ''seq_ano'' d)"
  "meta_select ''seq_num'' (init_db clk d) =
     (if meta_select ''seq_num'' d = [] then [''0''] else meta_select ''seq_num'' d)"
  by (simp_all add: init_db_def Let_def meta_select_def)

lemma init_db_extends:
  "\<exists>new_meta new_users.
     init_db clk d = d\<lparr>meta := meta d @ new_meta, users := users d @ new_users\<rparr>
     \<and> distinct (map fst new_meta)
     \<and> set (map fst new_meta) \<inter> set (map fst (meta d)) = {}"
proof -
  let ?m1 = "if meta_select ''seq_ano'' d = [] then [(''seq_ano'', py_str (now_year clk))] else []"
  let ?m2 = "if meta_select ''seq_num'' d = [] then [(''seq_num'', ''0'')] else []"
  let ?u = "if filter (\<lambda>u. u_username u = ''admin'') (users d) = []
            then [\<lparr>u_id = next_rowid (map u_id (users d)), u_username = ''admin'',
                   u_role = ''admin'', u_active = 1, u_created_at = now_ts clk\<rparr>] else []"
  have "init_db clk d = d\<lparr>meta := meta d @ (?m1 @ ?m2), users := users d @ ?u\<rparr>"
    by (simp add: init_db_def Let_def meta_select_def)
  moreover have "distinct (map fst (?m1 @ ?m2))"
    by simp
  moreover have "set (map fst (?m1 @ ?m2)) \<inter> set (map fst (meta d)) = {}"
    by (auto simp: meta_select_def filter_empty_conv)
  ultimately show ?thesis by blast
qed

lemma init_db_empty:
  "init_db clk empty_db =
     empty_db\<lparr>meta := [(''seq_ano'', py_str (now_year clk)), (''seq_num'', ''0'')],
              users := [\<lparr>u_id = 1, u_username = ''admin'', u_role = ''admin'', u_active = 1,
                         u_created_at = now_ts clk\<rparr>]\<rparr>"
  by (simp add: init_db_def Let_def meta_select_def empty_db_def next_rowid_def)

lemma users_ok_init_db: "users_ok d \<Longrightarrow> users_ok (init_db clk d)"
  by (auto simp: users_ok_def init_db_def Let_def is_bootstrap_admin_def filter_empty_conv)

lemma frm_sample_users: "users (fst (frm_sample clk user f d)) = users d"
proof -
  obtain d' out where r: "frm_sample clk user f d = (d', out)"
    by (cases "frm_sample clk user f d")
  show ?thesis
  proof (cases "succeeded out")
    case False
    then have "d' = d\<lparr>meta := meta d'\<rparr>"
      using frm_sample_audited [OF r] by simp
    then have "users d' = users d"
      by (metis db.select_convs(2) db.surjective db.update_convs(1))
    then show ?thesis using r by simp
  next
    case True
    then obtain msg where out: "out = St_success msg"
      by (cases out) (simp_all add: succeeded_def)
    have cl: "sf_client f \<noteq> []"
      using r out by (auto simp: frm_sample_def)
    obtain sid d1 where n: "next_sample_id clk d = Inr (sid, d1)"
      using r out cl by (cases "next_sample_id clk d") (auto simp: frm_sample_def)
    have u1: "users d1 = users d"
      using next_sample_id_frame [OF n] by (metis db.select_convs(2) db.surjective db.update_convs(1))
    show ?thesis
      using r out cl n u1
      by (auto simp: frm_sample_def Let_def insert_coc_frame audit_frame
          dest!: insert_sample_Inr split: sum.splits)
  qed
qed

lemma run_action_users:
  "users (fst (run_action py_float clk user a d)) = users d
   \<or> (\<exists>u. users (fst (run_action py_float clk user a d)) = users d @ [u]
          \<and> u_username u \<notin> set (map u_username (users d))
          \<and> u_username u \<noteq> [])"
proof (cases a)
  case (Frm_sample f)
  then show ?thesis by (simp add: frm_sample_users)
next
  case (Edit_sample sid f)
  then show ?thesis
    by (simp add: edit_sample_def Let_def audit_frame split: list.splits)
next
  case (Add_test sid2 f)
  then show ?thesis by (simp add: add_test_def Let_def audit_frame)
next
  case (Edit_test tid f)
  then show ?thesis
    by (simp add: edit_test_def Let_def audit_frame split: list.splits)
next
  case (Add_result f)
  then show ?thesis
    by (simp add: add_result_def Let_def audit_frame split: sum.splits)
next
  case (Add_link sid f)
  then show ?thesis by (simp add: add_link_def Let_def audit_frame)
next
  case (Qc_form f)
  then show ?thesis by (simp add: qc_form_def Let_def audit_frame)
next
  case (Qc_close qid)
  then show ?thesis by (simp add: qc_close_def Let_def audit_frame)
next
  case (Add_user f)
  then show ?thesis by (simp add: add_user_def Let_def audit_frame)
next
  case (Add_coc sid f)
  then show ?thesis by (simp add: add_coc_def Let_def audit_frame insert_coc_frame)
qed

lemma users_ok_script_run:
  assumes "users_ok d"
  shows "users_ok (fst (script_run py_float clk user a d))"
proof -
  let ?d0 = "init_db clk d"
  have ok: "users_ok ?d0" by (rule users_ok_init_db [OF assms])
  have adm: "''admin'' \<in> set (map u_username (users ?d0))"
  proof -
    obtain x where x: "x \<in> set (users ?d0)" and n: "u_username x = ''admin''"
      using init_db_established(3) [of clk d] unfolding filter_empty_conv by blast
    from x have "u_username x \<in> u_username ` set (users ?d0)"
      by (rule imageI)
    then show ?thesis
      by (simp only: set_map n)
  qed
  from run_action_users [of py_float clk user a ?d0] show ?thesis
  proof
    assume "users (fst (run_action py_float clk user a ?d0)) = users ?d0"
    then show ?thesis using ok by (simp add: users_ok_def script_run_def)
  next
    assume "\<exists>u. users (fst (run_action py_float clk user a ?d0)) = users ?d0 @ [u]
          \<and> u_username u \<notin> set (map u_username (users ?d0)) \<and> u_username u \<noteq> []"
    then obtain u where u: "users (fst (run_action py_float clk user a ?d0)) = users ?d0 @ [u]"
      and fresh: "u_username u \<notin> set (map u_username (users ?d0))"
      by blast
    have "u_username u \<noteq> ''admin''" using fresh adm by auto
    then show ?thesis
      using ok u fresh by (simp add: users_ok_def script_run_def)
  qed
qed

lemma users_ok_interactions:
  "users_ok d \<Longrightarrow> users_ok (interactions py_float hist d)"
proof (induction hist arbitrary: d)
  case Nil
  then show ?case by simp
next
  case (Cons x hist)
  obtain clk user a where x: "x = (clk, user, a)" by (cases x)
  show ?case
    using Cons.IH [OF users_ok_script_run [OF Cons.prems, of py_float clk user a]] x by simp
qed

lemma users_ok_empty: "users_ok empty_db"
  by (simp add: users_ok_def empty_db_def)

lemma one_of_name:
  "distinct (map f xs) \<Longrightarrow> length (filter (\<lambda>x. f x = a) xs) \<le> 1"
  by (induction xs) (auto simp: filter_empty_conv image_iff)

lemma admin_after_init:
  assumes "users_ok d"
  shows "\<exists>u. filter (\<lambda>u. u_username u = ''admin'') (users (init_db clk d)) = [u]
           \<and> is_bootstrap_admin u"
proof -
  have ok: "users_ok (init_db clk d)" by (rule users_ok_init_db [OF assms])
  let ?as = "filter (\<lambda>u. u_username u = ''admin'') (users (init_db clk d))"
  have "length ?as \<le> 1"
    using ok by (intro one_of_name) (simp add: users_ok_def)
  moreover have "?as \<noteq> []" by (rule init_db_established(3))
  ultimately obtain u where u: "?as = [u]"
    by (cases ?as) auto
  then have "u \<in> set ?as" by simp
  then have "u \<in> set (users (init_db clk d))" and "u_username u = ''admin''" by auto
  then have "is_bootstrap_admin u"
    using ok by (auto simp: users_ok_def list_all_iff)
  then show ?thesis using u by blast
qed

text \<open>
  Claim C9. Running \<open>init_db\<close> a second time, at any later clock reading, changes
  nothing. After \<open>init_db\<close> the \<open>meta\<close> table answers \<open>seq_ano\<close> with the current year
  and \<open>seq_num\<close> with \<open>0\<close> when the key was absent, and with what it held otherwise.
  \<open>init_db\<close> only appends: the database afterwards is the one before with new \<open>meta\<close>
  rows (of keys that were absent, each once) and new user rows after the old ones, every
  other table untouched. In any database the application can have produced (from the
  empty file, by any history of script runs), after \<open>init_db\<close> there is exactly one user
  named \<open>admin\<close>, with role \<open>admin\<close> and \<open>active = 1\<close>. On the empty file \<open>init_db\<close>
  gives the two sequencer rows and that one user.
\<close>

theorem init_db_idempotent_bootstrap:
  "init_db clk2 (init_db clk d) = init_db clk d
   \<and> meta_select ''seq_ano'' (init_db clk d) =
       (if meta_select ''seq_ano'' d = [] then [py_str (now_year clk)]
        else meta_select ''seq_ano'' d)
   \<and> meta_select ''seq_num'' (init_db clk d) =
       (if meta_select ''seq_num'' d = [] then [''0''] else meta_select ''seq_num'' d)
   \<and> (\<exists>new_meta new_users.
         init_db clk d = d\<lparr>meta := meta d @ new_meta, users := users d @ new_users\<rparr>
         \<and> distinct (map fst new_meta)
         \<and> set (map fst new_meta) \<inter> set (map fst (meta d)) = {})
   \<and> (\<exists>u. filter (\<lambda>u. u_username u = ''admin'')
              (users (init_db clk (interactions py_float hist empty_db))) = [u]
          \<and> is_bootstrap_admin u)
   \<and> init_db clk empty_db =
       empty_db\<lparr>meta := [(''seq_ano'', py_str (now_year clk)), (''seq_num'', ''0'')],
                users := [\<lparr>u_id = 1, u_username = ''admin'', u_role = ''admin'', u_active = 1,
                           u_created_at = now_ts clk\<rparr>]\<rparr>"
  using init_db_twice [of clk2 clk d] init_db_meta_select [of clk d] init_db_extends [of clk d]
    admin_after_init [OF users_ok_interactions [OF users_ok_empty], of clk py_float hist]
    init_db_empty [of clk]
  by (intro conjI)

end
